theory Spec2Isabelle
  imports Complex_Main "HOL-Library.AList"
begin

section \<open>Values and errors\<close>

text \<open>
  The tables of the program hold floating-point cells. A finite cell is modelled by the
  real number it denotes, with exact arithmetic; \<open>NaN\<close> (what pandas reads from a missing
  cell, and the sentinel \<open>np.nan\<close> the program writes itself) is the only non-finite cell
  value of the model. Rounding, overflow and infinite cells are outside the model. The
  value \<open>float('inf')\<close>, which the program uses only to start a running minimum, is
  \<open>None\<close> of a \<open>real option\<close>.
\<close>

datatype fval = Fin real | NaN

datatype error = ValueError | KeyError | LoadError

text \<open>Comparisons of Python floats: every comparison with NaN is false.\<close>

fun fl_less :: "fval \<Rightarrow> fval \<Rightarrow> bool" where
  "fl_less (Fin a) (Fin b) = (a < b)"
| "fl_less _ _ = False"

fun fl_le :: "fval \<Rightarrow> fval \<Rightarrow> bool" where
  "fl_le (Fin a) (Fin b) = (a \<le> b)"
| "fl_le _ _ = False"

fun fl_sub :: "fval \<Rightarrow> real \<Rightarrow> fval" where
  "fl_sub (Fin a) p = Fin (a - p)"
| "fl_sub NaN p = NaN"

fun fl_sq :: "fval \<Rightarrow> fval" where
  "fl_sq (Fin a) = Fin (a * a)"
| "fl_sq NaN = NaN"

fun fl_abs :: "fval \<Rightarrow> fval" where
  "fl_abs (Fin a) = Fin \<bar>a\<bar>"
| "fl_abs NaN = NaN"

fun fl_mul :: "fval \<Rightarrow> real \<Rightarrow> fval" where
  "fl_mul (Fin a) c = Fin (a * c)"
| "fl_mul NaN c = NaN"

fun is_fin :: "fval \<Rightarrow> bool" where
  "is_fin (Fin a) = True"
| "is_fin NaN = False"

fun the_fin :: "fval \<Rightarrow> real" where
  "the_fin (Fin a) = a"
| "the_fin NaN = 0"

text \<open>\<open>d < m\<close> where \<open>m\<close> is a running minimum that starts at \<open>float('inf')\<close>.\<close>

fun lt_min :: "real \<Rightarrow> real option \<Rightarrow> bool" where
  "lt_min d None = True"
| "lt_min d (Some m) = (d < m)"

text \<open>\<open>Series.sum()\<close> of pandas skips NaN cells (\<open>skipna=True\<close>); the sum of no cell is 0.\<close>

definition sum_skipna :: "fval list \<Rightarrow> real" where
  "sum_skipna vs = sum_list (map the_fin (filter is_fin vs))"

text \<open>
  The builtin \<open>max\<close> of Python over a sequence: it keeps the first element and replaces it
  by a later one only when \<open>later > kept\<close> holds; on an empty sequence it raises.
\<close>

definition py_max :: "fval list \<Rightarrow> error + fval" where
  "py_max vs = (case vs of [] \<Rightarrow> Inl ValueError
                | v # rest \<Rightarrow> Inr (foldl (\<lambda>m w. if fl_less m w then w else m) v rest))"

text \<open>A series minus an array of predictions: the lengths must agree.\<close>

definition series_sub :: "fval list \<Rightarrow> real list \<Rightarrow> error + fval list" where
  "series_sub ys ps = (if length ys \<noteq> length ps then Inl ValueError
                       else Inr (map2 fl_sub ys ps))"

section \<open>Tables\<close>

text \<open>
  A data frame read from a CSV file: the column \<open>x\<close>, which comes first, and the other
  columns \<open>columns[1:]\<close> in their order, each with its label. \<open>frame[label]\<close> is a
  lookup by label, \<open>KeyError\<close> when the label is absent.
\<close>

record table =
  x_col :: "fval list"
  y_cols :: "(string \<times> fval list) list"

definition columns :: "table \<Rightarrow> string list" where
  "columns t = map fst (y_cols t)"

definition column :: "table \<Rightarrow> string \<Rightarrow> error + fval list" where
  "column t name = (case map_of (y_cols t) name of None \<Rightarrow> Inl KeyError | Some ys \<Rightarrow> Inr ys)"

section \<open>The regression\<close>

record line =
  slope :: real
  intercept :: real

text \<open>
  Modelled from the spec: the mean and the centred sums of the closed-form least-squares
  fit of section 4.1 (the regression itself is a library call, see below).
\<close>

definition mean :: "real list \<Rightarrow> real" where
  "mean vs = sum_list vs / real (length vs)"

definition sxx :: "real list \<Rightarrow> real" where
  "sxx xs = (\<Sum>x\<leftarrow>xs. (x - mean xs) * (x - mean xs))"

definition sxy :: "real list \<Rightarrow> real list \<Rightarrow> real" where
  "sxy xs ys = (\<Sum>(x, y)\<leftarrow>zip xs ys. (x - mean xs) * (y - mean ys))"

text \<open>
  Modelled from the spec: the regression fitter. The program calls \<open>fit\<close> and \<open>predict\<close>
  of a linear-regression object of a library, whose code is not among the sources. After
  section 4.1 of the specification, \<open>fit\<close> computes the ordinary least-squares slope and
  intercept in closed form over \<open>len(fit_x) == len(fit_y) >= 1\<close> points, and when the x
  values have zero variance it falls back to slope 0 and the mean of the y values as
  intercept. The fit fails (it raises) when the lengths differ, when there is no point, or
  when a value is undefined (NaN); \<open>predict\<close> fails on an undefined query point.
\<close>

definition fit :: "fval list \<Rightarrow> fval list \<Rightarrow> error + line" where
  "fit fit_x fit_y =
     (if length fit_x \<noteq> length fit_y \<or> fit_x = [] \<or> \<not> list_all is_fin fit_x
         \<or> \<not> list_all is_fin fit_y
      then Inl ValueError
      else let xs = map the_fin fit_x; ys = map the_fin fit_y;
               b = (if sxx xs = 0 then 0 else sxy xs ys / sxx xs)
           in Inr \<lparr>slope = b, intercept = mean ys - b * mean xs\<rparr>)"

text \<open>
  Modelled from the spec: \<open>predict\<close> of the same library object, which evaluates the
  fitted line at each query point (section 4.1) and raises on an undefined one.
\<close>

definition predict :: "line \<Rightarrow> fval list \<Rightarrow> error + real list" where
  "predict m query_x =
     (if \<not> list_all is_fin query_x then Inl ValueError
      else Inr (map (\<lambda>q. slope m * the_fin q + intercept m) query_x))"

section \<open>Selection of the ideal functions\<close>

text \<open>
  \<open>_calculate_squared_deviation\<close>: fit the ideal column on the x values, predict at the
  same x values, and sum the squared differences to the training column. Every exception
  is raised again to the caller.
\<close>

definition calculate_squared_deviation ::
  "fval list \<Rightarrow> fval list \<Rightarrow> fval list \<Rightarrow> error + real" where
  "calculate_squared_deviation train_y ideal_func_y x =
     (case fit x ideal_func_y of
        Inl e \<Rightarrow> Inl e
      | Inr m \<Rightarrow>
          (case predict m x of
             Inl e \<Rightarrow> Inl e
           | Inr y_predicted_ideal \<Rightarrow>
               (case series_sub train_y y_predicted_ideal of
                  Inl e \<Rightarrow> Inl e
                | Inr diff \<Rightarrow> Inr (sum_skipna (map fl_sq diff)))))"

text \<open>
  The body of the \<open>try\<close> of the inner loop of \<open>get_ideal_functions\<close>: the two columns are
  looked up by label and handed to \<open>_calculate_squared_deviation\<close>.
\<close>

definition sum_squared_deviation ::
  "table \<Rightarrow> table \<Rightarrow> string \<Rightarrow> string \<Rightarrow> error + real" where
  "sum_squared_deviation train_data ideal_data train_col ideal_col =
     (case column train_data train_col of
        Inl e \<Rightarrow> Inl e
      | Inr train_y \<Rightarrow>
          (case column ideal_data ideal_col of
             Inl e \<Rightarrow> Inl e
           | Inr ideal_y \<Rightarrow> calculate_squared_deviation train_y ideal_y (x_col train_data)))"

text \<open>
  The inner loop over the ideal columns, for one training column. The state is the pair
  of \<open>min_sum_squared_deviation\<close> and \<open>best_ideal_func_name\<close>. A pair of columns whose
  deviation raises is skipped with a warning; a deviation replaces the minimum only when
  it is strictly smaller.
\<close>

fun best_ideal_loop ::
  "table \<Rightarrow> table \<Rightarrow> string \<Rightarrow> string list \<Rightarrow> real option \<times> string option
     \<Rightarrow> real option \<times> string option" where
  "best_ideal_loop train_data ideal_data train_col [] st = st"
| "best_ideal_loop train_data ideal_data train_col (ideal_col # rest) (mn, best) =
     (case sum_squared_deviation train_data ideal_data train_col ideal_col of
        Inl e \<Rightarrow> best_ideal_loop train_data ideal_data train_col rest (mn, best)
      | Inr d \<Rightarrow>
          (if lt_min d mn
           then best_ideal_loop train_data ideal_data train_col rest (Some d, Some ideal_col)
           else best_ideal_loop train_data ideal_data train_col rest (mn, best)))"

definition best_ideal_func_name :: "table \<Rightarrow> table \<Rightarrow> string \<Rightarrow> string option" where
  "best_ideal_func_name train_data ideal_data train_col =
     snd (best_ideal_loop train_data ideal_data train_col (columns ideal_data) (None, None))"

text \<open>
  The second \<open>try\<close> of the outer loop: refit the chosen ideal column and take the largest
  absolute difference to the training column. \<open>ideal_data[None]\<close> raises \<open>KeyError\<close>.
\<close>

definition max_deviation_train ::
  "table \<Rightarrow> table \<Rightarrow> string \<Rightarrow> string option \<Rightarrow> error + fval" where
  "max_deviation_train train_data ideal_data train_col best =
     (case best of
        None \<Rightarrow> Inl KeyError
      | Some name \<Rightarrow>
          (case column ideal_data name of
             Inl e \<Rightarrow> Inl e
           | Inr ideal_y \<Rightarrow>
               (case fit (x_col train_data) ideal_y of
                  Inl e \<Rightarrow> Inl e
                | Inr m \<Rightarrow>
                    (case predict m (x_col train_data) of
                       Inl e \<Rightarrow> Inl e
                     | Inr y_predicted \<Rightarrow>
                         (case column train_data train_col of
                            Inl e \<Rightarrow> Inl e
                          | Inr train_y \<Rightarrow>
                              (case series_sub train_y y_predicted of
                                 Inl e \<Rightarrow> Inl e
                               | Inr diff \<Rightarrow> py_max (map fl_abs diff)))))))"

text \<open>
  What the \<open>try\<close>/\<open>except\<close> around the refit stores for the training column: the
  maximal deviation, or \<open>np.nan\<close> when anything in the \<open>try\<close> raised.
\<close>

definition deviation_bound :: "table \<Rightarrow> table \<Rightarrow> string \<Rightarrow> string option \<Rightarrow> fval" where
  "deviation_bound train_data ideal_data train_col best =
     (case max_deviation_train train_data ideal_data train_col best of
        Inl e \<Rightarrow> NaN
      | Inr v \<Rightarrow> v)"

text \<open>
  The outer loop over the training columns. A Python dictionary is an association list in
  insertion order: an assignment to a present key replaces the value in place, an
  assignment to a new key appends. The first component is the local dictionary
  \<open>best_ideal_functions_selection\<close>, the second the dictionary
  \<open>self.training_data_max_deviations\<close> of the object, which the loop assigns into.
\<close>

type_synonym selection = "(string \<times> string option) list"
type_synonym deviations = "(string \<times> fval) list"

fun select_loop ::
  "table \<Rightarrow> table \<Rightarrow> string list \<Rightarrow> selection \<times> deviations \<Rightarrow> selection \<times> deviations" where
  "select_loop train_data ideal_data [] st = st"
| "select_loop train_data ideal_data (train_col # rest) (sel, devs) =
     (let best = best_ideal_func_name train_data ideal_data train_col
      in select_loop train_data ideal_data rest
           (AList.update train_col best sel,
            AList.update train_col (deviation_bound train_data ideal_data train_col best) devs))"

section \<open>The manager and its data sources\<close>

datatype DatasetType = TRAIN | TEST | IDEAL

text \<open>
  The CSV files of the data set, as the data manager finds them when it is asked: \<open>None\<close>
  is a file that is missing or cannot be parsed. \<open>load_data\<close> of the data manager reads
  the file (it also copies it into a table of the data base of the inputs, which nothing
  here reads back).
\<close>

type_synonym datasets = "DatasetType \<Rightarrow> table option"

definition load_data :: "datasets \<Rightarrow> DatasetType \<Rightarrow> error + table" where
  "load_data files dataset_type =
     (case files dataset_type of None \<Rightarrow> Inl LoadError | Some df \<Rightarrow> Inr df)"

text \<open>\<open>DataFrame.empty\<close>: the frame has no row.\<close>

definition empty_frame :: "table \<Rightarrow> bool" where
  "empty_frame df = (x_col df = [])"

text \<open>
  \<open>_load_data\<close> of the manager: an empty frame is an error too, and every error is raised
  again to the caller.
\<close>

definition manager_load_data :: "datasets \<Rightarrow> DatasetType \<Rightarrow> error + table" where
  "manager_load_data files data_type =
     (case load_data files data_type of
        Inl e \<Rightarrow> Inl LoadError
      | Inr data \<Rightarrow> if empty_frame data then Inl LoadError else Inr data)"

text \<open>
  One row of the mapping results, and the same row without its column
  \<open>training_data_column\<close>, as it is stored. \<open>delta_y\<close> is the running minimum of the
  test point when the row is written.
\<close>

record stored_row =
  test_x :: fval
  test_y :: fval
  delta_y :: "real option"
  ideal_func :: string

record mapping_row = stored_row +
  training_data_column :: "string option"

definition drop_training_data_column :: "mapping_row \<Rightarrow> stored_row" where
  "drop_training_data_column r =
     \<lparr>test_x = test_x r, test_y = test_y r, delta_y = delta_y r, ideal_func = ideal_func r\<rparr>"

text \<open>
  The state of an \<open>IdealFunctionsManager\<close> that the two operations read and write: the
  two dictionaries, and the tables of the data base of the results. (The frame
  \<open>ideal_functions_data\<close> and the model object only serve the plots and the next fit.)
\<close>

record manager =
  ideal_functions_selection :: selection
  training_data_max_deviations :: deviations
  results_db :: "string \<rightharpoonup> stored_row list"

text \<open>\<open>__init__\<close>: both dictionaries start empty; the data base is the one found on disk.\<close>

definition init_manager :: "(string \<rightharpoonup> stored_row list) \<Rightarrow> manager" where
  "init_manager db =
     \<lparr>ideal_functions_selection = [], training_data_max_deviations = [], results_db = db\<rparr>"

text \<open>
  \<open>save_data\<close> of the data manager writes with \<open>if_exists='replace'\<close>. The data base is
  taken to accept every write.
\<close>

definition save_data ::
  "string \<Rightarrow> stored_row list \<Rightarrow> (string \<rightharpoonup> stored_row list) \<Rightarrow> (string \<rightharpoonup> stored_row list)" where
  "save_data table_name data db = db(table_name \<mapsto> data)"

text \<open>
  The frame \<open>ideal_functions_data\<close> is built from the dictionary of the chosen columns,
  one value per training column: a copy of the chosen ideal column, or \<open>None\<close>. The
  constructor of the frame refuses a dictionary that is not empty and holds scalars only
  (here: \<open>None\<close> only); it raises a \<open>ValueError\<close>, outside every \<open>try\<close>.
\<close>

definition chosen_frame_error :: "selection \<Rightarrow> error option" where
  "chosen_frame_error sel =
     (if sel \<noteq> [] \<and> list_all (\<lambda>p. snd p = None) sel then Some ValueError else None)"

text \<open>
  \<open>get_ideal_functions\<close>: the state in which the operation leaves the object, and the
  exception with which it ends, if any. When a file cannot be loaded the operation logs
  the error and returns. Otherwise the loop starts from a new, empty local selection and
  from the dictionary of deviations that the object already holds; after the loop the
  local selection replaces the one of the object, and then the frame of the chosen columns
  is built. The log lines and the plot that follow do not change the state; the plot is
  inside a \<open>try\<close> of its own.
\<close>

definition get_ideal_functions :: "datasets \<Rightarrow> manager \<Rightarrow> manager \<times> error option" where
  "get_ideal_functions files self =
     (case manager_load_data files TRAIN of
        Inl e \<Rightarrow> (self, None)
      | Inr train_data \<Rightarrow>
          (case manager_load_data files IDEAL of
             Inl e \<Rightarrow> (self, None)
           | Inr ideal_data \<Rightarrow>
               (case select_loop train_data ideal_data (columns train_data)
                       ([], training_data_max_deviations self) of
                  (sel, devs) \<Rightarrow>
                    (self\<lparr>ideal_functions_selection := sel,
                          training_data_max_deviations := devs\<rparr>,
                     chosen_frame_error sel))))"

section \<open>Mapping of the test data\<close>

text \<open>
  The first statements of the \<open>try\<close> for one test point and one chosen ideal column: fit
  the ideal column on the whole x grid of the ideal table, predict at the x of the test
  point, and take the absolute difference to its y.
\<close>

definition deviation_test_point :: "table \<Rightarrow> fval list \<Rightarrow> fval \<Rightarrow> fval \<Rightarrow> error + fval" where
  "deviation_test_point ideal_data ideal_func_y_data x_test y_test =
     (case fit (x_col ideal_data) ideal_func_y_data of
        Inl e \<Rightarrow> Inl e
      | Inr m \<Rightarrow>
          (case predict m [x_test] of
             Inl e \<Rightarrow> Inl e
           | Inr ps \<Rightarrow>
               (case ps of
                  [] \<Rightarrow> Inl ValueError
                | p # _ \<Rightarrow> Inr (fl_abs (fl_sub y_test p)))))"

text \<open>
  The criterion: \<open>deviation_test_point <= max_train_deviation_for_func * (2**0.5)\<close>,
  with the deviation of the training column looked up in the dictionary of the object.
\<close>

definition within_bound :: "deviations \<Rightarrow> string \<Rightarrow> fval \<Rightarrow> error + bool" where
  "within_bound devs train_col_name d =
     (case map_of devs train_col_name of
        None \<Rightarrow> Inl KeyError
      | Some max_train_deviation_for_func \<Rightarrow>
          Inr (fl_le d (fl_mul max_train_deviation_for_func (sqrt 2))))"

text \<open>
  Whether the pair of a training column and its ideal column is accepted for a test
  point: the \<open>try\<close> reaches the criterion and the criterion holds.
\<close>

definition pair_accepted ::
  "table \<Rightarrow> deviations \<Rightarrow> fval \<Rightarrow> fval \<Rightarrow> string \<Rightarrow> fval list \<Rightarrow> bool" where
  "pair_accepted ideal_data devs x_test y_test train_col_name ideal_func_y_data =
     (case deviation_test_point ideal_data ideal_func_y_data x_test y_test of
        Inl e \<Rightarrow> False
      | Inr d \<Rightarrow>
          (case within_bound devs train_col_name d of Inl e \<Rightarrow> False | Inr ok \<Rightarrow> ok))"

text \<open>
  The state of the loop over the chosen functions, for one test point:
  \<open>min_deviation_test_point\<close>, \<open>best_ideal_func_name_for_test_point\<close> and
  \<open>best_train_col_name_for_test_point\<close>.
\<close>

type_synonym tracker = "real option \<times> string option \<times> string option"

text \<open>The body of the \<open>try\<close>: \<open>Inl\<close> is an exception, which the \<open>except\<close> turns into a warning.\<close>

definition try_pair ::
  "table \<Rightarrow> deviations \<Rightarrow> fval \<Rightarrow> fval \<Rightarrow> string \<Rightarrow> string \<Rightarrow> fval list \<Rightarrow> tracker
     \<Rightarrow> error + tracker" where
  "try_pair ideal_data devs x_test y_test train_col_name ideal_func_name ideal_func_y_data st =
     (case deviation_test_point ideal_data ideal_func_y_data x_test y_test of
        Inl e \<Rightarrow> Inl e
      | Inr d \<Rightarrow>
          (case within_bound devs train_col_name d of
             Inl e \<Rightarrow> Inl e
           | Inr ok \<Rightarrow>
               Inr (if ok \<and> lt_min (the_fin d) (fst st)
                    then (Some (the_fin d), Some ideal_func_name, Some train_col_name)
                    else st)))"

text \<open>
  The loop over the items of the selection. The ideal column is looked up before the
  \<open>try\<close>, so a \<open>KeyError\<close> there (the chosen name is \<open>None\<close>, or no column of the ideal
  table has it) leaves the loop and the operation: the result is \<open>Inl\<close>.
\<close>

fun map_pairs ::
  "table \<Rightarrow> deviations \<Rightarrow> fval \<Rightarrow> fval \<Rightarrow> selection \<Rightarrow> tracker \<Rightarrow> error + tracker" where
  "map_pairs ideal_data devs x_test y_test [] st = Inr st"
| "map_pairs ideal_data devs x_test y_test ((train_col_name, chosen) # rest) st =
     (case chosen of
        None \<Rightarrow> Inl KeyError
      | Some ideal_func_name \<Rightarrow>
          (case column ideal_data ideal_func_name of
             Inl e \<Rightarrow> Inl e
           | Inr ideal_func_y_data \<Rightarrow>
               (case try_pair ideal_data devs x_test y_test train_col_name ideal_func_name
                       ideal_func_y_data st of
                  Inl e \<Rightarrow> map_pairs ideal_data devs x_test y_test rest st
                | Inr st' \<Rightarrow> map_pairs ideal_data devs x_test y_test rest st')))"

text \<open>
  The row appended for one test point: only \<open>if best_ideal_func_name_for_test_point\<close>,
  which is false for \<open>None\<close> and for the empty string.
\<close>

definition result_rows :: "fval \<Rightarrow> fval \<Rightarrow> tracker \<Rightarrow> mapping_row list" where
  "result_rows x_test y_test st =
     (case st of (mn, best_ideal, best_train) \<Rightarrow>
        (case best_ideal of
           None \<Rightarrow> []
         | Some name \<Rightarrow>
             if name = [] then []
             else [\<lparr>test_x = x_test, test_y = y_test, delta_y = mn, ideal_func = name,
                    training_data_column = best_train\<rparr>]))"

text \<open>The loop over the rows of the test table; \<open>mapping_results\<close> is the result.\<close>

fun map_rows ::
  "table \<Rightarrow> selection \<Rightarrow> deviations \<Rightarrow> (fval \<times> fval) list \<Rightarrow> error + mapping_row list" where
  "map_rows ideal_data sel devs [] = Inr []"
| "map_rows ideal_data sel devs ((x_test, y_test) # rest) =
     (case map_pairs ideal_data devs x_test y_test sel (None, None, None) of
        Inl e \<Rightarrow> Inl e
      | Inr st \<Rightarrow>
          (case map_rows ideal_data sel devs rest of
             Inl e \<Rightarrow> Inl e
           | Inr rows \<Rightarrow> Inr (result_rows x_test y_test st @ rows)))"

text \<open>\<open>iterrows\<close> with the cells \<open>x\<close> and \<open>y\<close> of each row of the test table.\<close>

definition iterrows :: "table \<Rightarrow> error + (fval \<times> fval) list" where
  "iterrows test_data =
     (case column test_data ''y'' of
        Inl e \<Rightarrow> (if x_col test_data = [] then Inr [] else Inl e)
      | Inr ys \<Rightarrow> Inr (zip (x_col test_data) ys))"

text \<open>What the operation reports through its logger.\<close>

datatype report =
  DataLoadingFailed | ErrorSavingResults | PointsMapped nat | NoPointsMapped

text \<open>
  \<open>map_test_data_to_ideal_functions\<close>. \<open>Inl\<close> is an exception that leaves the operation;
  otherwise the result is the new state and the reports in their order. Removing the
  column \<open>training_data_column\<close> from the frame of an empty list of results raises (that
  frame has no column), which the \<open>except\<close> around the saving turns into a warning: then
  nothing is saved. The plot that follows a non-empty result is not modelled.
\<close>

definition map_test_data_to_ideal_functions ::
  "datasets \<Rightarrow> manager \<Rightarrow> error + manager \<times> report list" where
  "map_test_data_to_ideal_functions files self =
     (case manager_load_data files TEST of
        Inl e \<Rightarrow> Inr (self, [DataLoadingFailed])
      | Inr test_data \<Rightarrow>
          (case manager_load_data files IDEAL of
             Inl e \<Rightarrow> Inr (self, [DataLoadingFailed])
           | Inr ideal_data \<Rightarrow>
               (case iterrows test_data of
                  Inl e \<Rightarrow> Inl e
                | Inr test_rows \<Rightarrow>
                    (case map_rows ideal_data (ideal_functions_selection self)
                            (training_data_max_deviations self) test_rows of
                       Inl e \<Rightarrow> Inl e
                     | Inr mapping_results \<Rightarrow>
                         if mapping_results = []
                         then Inr (self, [ErrorSavingResults, PointsMapped 0, NoPointsMapped])
                         else Inr (self\<lparr>results_db :=
                                      save_data ''TestDataMapping''
                                        (map drop_training_data_column mapping_results)
                                        (results_db self)\<rparr>,
                                   [PointsMapped (length mapping_results)])))))"

section \<open>Specification predicates and example data\<close>

text \<open>
  The state of the inner loop after the ideal columns \<open>pre\<close>: nothing chosen when no
  deviation could be computed; otherwise the chosen column is the first one of \<open>pre\<close> that
  attains the least deviation.
\<close>

definition first_min :: "(string \<Rightarrow> error + real) \<Rightarrow> string list \<Rightarrow> real option \<times> string option \<Rightarrow> bool" where
  "first_min dev pre st =
     (case fst st of
        None \<Rightarrow> snd st = None \<and> (\<forall>n\<in>set pre. \<forall>d. dev n \<noteq> Inr d)
      | Some m \<Rightarrow>
          (\<exists>k<length pre. snd st = Some (pre ! k) \<and> dev (pre ! k) = Inr m
              \<and> (\<forall>j<length pre. \<forall>d. dev (pre ! j) = Inr d \<longrightarrow> m \<le> d)
              \<and> (\<forall>j<k. \<forall>d. dev (pre ! j) = Inr d \<longrightarrow> m < d)))"

text \<open>A small data set: two grid points, two training columns, two ideal columns.\<close>

definition ex_train :: table where
  "ex_train = \<lparr>x_col = [Fin 0, Fin 1],
     y_cols = [(''train_y1'', [Fin 0, Fin 1]), (''train_y2'', [Fin 1, Fin 1])]\<rparr>"

definition ex_ideal :: table where
  "ex_ideal = \<lparr>x_col = [Fin 0, Fin 1],
     y_cols = [(''ideal_y1'', [Fin 1, Fin 1]), (''ideal_y2'', [Fin 0, Fin 1])]\<rparr>"

definition ex_test :: table where
  "ex_test = \<lparr>x_col = [Fin 1, Fin 2], y_cols = [(''y'', [Fin 1, Fin 5])]\<rparr>"

definition ex_files :: datasets where
  "ex_files k = (case k of TRAIN \<Rightarrow> Some ex_train | IDEAL \<Rightarrow> Some ex_ideal | TEST \<Rightarrow> Some ex_test)"

definition ex_ideal_nan :: table where
  "ex_ideal_nan = \<lparr>x_col = [Fin 0, Fin 1], y_cols = [(''ideal_y1'', [NaN, Fin 1])]\<rparr>"

definition ex_files_nan :: datasets where
  "ex_files_nan k = (case k of TRAIN \<Rightarrow> Some ex_train | IDEAL \<Rightarrow> Some ex_ideal_nan | TEST \<Rightarrow> Some ex_test)"


text \<open>Variants of the small data set, and the states the example runs go through.\<close>

definition ex_test_far :: table where
  "ex_test_far = \<lparr>x_col = [Fin 2], y_cols = [(''y'', [Fin 5])]\<rparr>"

definition ex_files_far :: datasets where
  "ex_files_far k = (case k of TRAIN \<Rightarrow> Some ex_train | IDEAL \<Rightarrow> Some ex_ideal | TEST \<Rightarrow> Some ex_test_far)"

definition ex_files_no_test :: datasets where
  "ex_files_no_test k = (case k of TRAIN \<Rightarrow> Some ex_train | IDEAL \<Rightarrow> Some ex_ideal | TEST \<Rightarrow> None)"

definition ex_train_one :: table where
  "ex_train_one = \<lparr>x_col = [Fin 0, Fin 1], y_cols = [(''train_y1'', [Fin 0, Fin 2])]\<rparr>"

definition ex_files_one :: datasets where
  "ex_files_one k = (case k of TRAIN \<Rightarrow> Some ex_train_one | IDEAL \<Rightarrow> Some ex_ideal | TEST \<Rightarrow> Some ex_test)"

definition ex_selected :: manager where
  "ex_selected =
     \<lparr>ideal_functions_selection = [(''train_y1'', Some ''ideal_y2''), (''train_y2'', Some ''ideal_y1'')],
      training_data_max_deviations = [(''train_y1'', Fin 0), (''train_y2'', Fin 0)],
      results_db = Map.empty\<rparr>"

definition ex_stored_row :: stored_row where
  "ex_stored_row = \<lparr>test_x = Fin 1, test_y = Fin 1, delta_y = Some 0, ideal_func = ''ideal_y2''\<rparr>"

definition ex_mapped :: manager where
  "ex_mapped = ex_selected\<lparr>results_db := [''TestDataMapping'' \<mapsto> [ex_stored_row]]\<rparr>"

definition ex_train_tie :: table where
  "ex_train_tie = \<lparr>x_col = [Fin 0, Fin 1, Fin 2], y_cols = [(''train_y1'', [Fin 0, Fin 1, Fin 2])]\<rparr>"

definition ex_ideal_tie :: table where
  "ex_ideal_tie = \<lparr>x_col = [Fin 0, Fin 1, Fin 2],
     y_cols = [(''ideal_y1'', [Fin 0, Fin 1, Fin 2]), (''ideal_y2'', [Fin 1, Fin (- 1), Fin 3])]\<rparr>"

definition ex_ideal_tie_shuffled :: table where
  "ex_ideal_tie_shuffled = \<lparr>x_col = [Fin 0, Fin 1, Fin 2],
     y_cols = [(''ideal_y2'', [Fin 1, Fin (- 1), Fin 3]), (''ideal_y1'', [Fin 0, Fin 1, Fin 2])]\<rparr>"

definition ex_files_tie :: datasets where
  "ex_files_tie k = (case k of TRAIN \<Rightarrow> Some ex_train_tie | IDEAL \<Rightarrow> Some ex_ideal_tie | TEST \<Rightarrow> Some ex_test)"

definition ex_files_tie_shuffled :: datasets where
  "ex_files_tie_shuffled k =
     (case k of TRAIN \<Rightarrow> Some ex_train_tie | IDEAL \<Rightarrow> Some ex_ideal_tie_shuffled | TEST \<Rightarrow> Some ex_test)"

definition ex_ideal_shuffled :: table where
  "ex_ideal_shuffled = \<lparr>x_col = [Fin 0, Fin 1],
     y_cols = [(''ideal_y2'', [Fin 0, Fin 1]), (''ideal_y1'', [Fin 1, Fin 1])]\<rparr>"

definition ex_files_shuffled :: datasets where
  "ex_files_shuffled k =
     (case k of TRAIN \<Rightarrow> Some ex_train | IDEAL \<Rightarrow> Some ex_ideal_shuffled | TEST \<Rightarrow> Some ex_test)"

text \<open>In a data frame every column has as many rows as the column \<open>x\<close>.\<close>

definition well_formed :: "table \<Rightarrow> bool" where
  "well_formed t = (\<forall>c\<in>set (y_cols t). length (snd c) = length (x_col t))"

section \<open>The inner loop finds the first least deviation\<close>

lemma first_min_skip:
  assumes "first_min dev pre st" and "dev c = Inl e"
  shows "first_min dev (pre @ [c]) st"
proof (cases "fst st")
  case None
  with assms show ?thesis by (auto simp: first_min_def)
next
  case (Some m)
  with assms(1) obtain k where k: "k < length pre" "snd st = Some (pre ! k)" "dev (pre ! k) = Inr m"
    "\<forall>j<length pre. \<forall>d. dev (pre ! j) = Inr d \<longrightarrow> m \<le> d"
    "\<forall>j<k. \<forall>d. dev (pre ! j) = Inr d \<longrightarrow> m < d"
    by (auto simp: first_min_def)
  have "k < length (pre @ [c])" using k(1) by simp
  moreover have "snd st = Some ((pre @ [c]) ! k)" using k(1,2) by (simp add: nth_append)
  moreover have "dev ((pre @ [c]) ! k) = Inr m" using k(1,3) by (simp add: nth_append)
  moreover have "\<forall>j<length (pre @ [c]). \<forall>d. dev ((pre @ [c]) ! j) = Inr d \<longrightarrow> m \<le> d"
    using k(4) assms(2) by (auto simp: nth_append less_Suc_eq)
  moreover have "\<forall>j<k. \<forall>d. dev ((pre @ [c]) ! j) = Inr d \<longrightarrow> m < d"
    using k(1,5) by (auto simp: nth_append)
  ultimately show ?thesis using Some unfolding first_min_def by auto
qed

lemma first_min_keep:
  assumes "first_min dev pre st" and "dev c = Inr d" and "\<not> lt_min d (fst st)"
  shows "first_min dev (pre @ [c]) st"
proof (cases "fst st")
  case None
  with assms show ?thesis by simp
next
  case (Some m)
  with assms(1) obtain k where k: "k < length pre" "snd st = Some (pre ! k)" "dev (pre ! k) = Inr m"
    "\<forall>j<length pre. \<forall>d. dev (pre ! j) = Inr d \<longrightarrow> m \<le> d"
    "\<forall>j<k. \<forall>d. dev (pre ! j) = Inr d \<longrightarrow> m < d"
    by (auto simp: first_min_def)
  from assms(3) Some have md: "m \<le> d" by simp
  have "k < length (pre @ [c])" using k(1) by simp
  moreover have "snd st = Some ((pre @ [c]) ! k)" using k(1,2) by (simp add: nth_append)
  moreover have "dev ((pre @ [c]) ! k) = Inr m" using k(1,3) by (simp add: nth_append)
  moreover have "\<forall>j<length (pre @ [c]). \<forall>d. dev ((pre @ [c]) ! j) = Inr d \<longrightarrow> m \<le> d"
    using k(4) assms(2) md by (auto simp: nth_append less_Suc_eq)
  moreover have "\<forall>j<k. \<forall>d. dev ((pre @ [c]) ! j) = Inr d \<longrightarrow> m < d"
    using k(1,5) by (auto simp: nth_append)
  ultimately show ?thesis using Some unfolding first_min_def by auto
qed

lemma first_min_replace:
  assumes "first_min dev pre st" and "dev c = Inr d" and "lt_min d (fst st)"
  shows "first_min dev (pre @ [c]) (Some d, Some c)"
proof -
  have below: "\<forall>j<length pre. \<forall>d'. dev (pre ! j) = Inr d' \<longrightarrow> d < d'"
  proof (cases "fst st")
    case None
    with assms(1) show ?thesis by (auto simp: first_min_def)
  next
    case (Some m)
    with assms(1) obtain k where k: "k < length pre"
      "\<forall>j<length pre. \<forall>d. dev (pre ! j) = Inr d \<longrightarrow> m \<le> d"
      by (auto simp: first_min_def)
    from assms(3) Some have "d < m" by simp
    with k(2) show ?thesis by fastforce
  qed
  have "length pre < length (pre @ [c])" by simp
  moreover have "(pre @ [c]) ! length pre = c" by simp
  moreover have "\<forall>j<length (pre @ [c]). \<forall>d'. dev ((pre @ [c]) ! j) = Inr d' \<longrightarrow> d \<le> d'"
    using below assms(2) by (auto simp: nth_append less_Suc_eq)
  moreover have "\<forall>j<length pre. \<forall>d'. dev ((pre @ [c]) ! j) = Inr d' \<longrightarrow> d < d'"
    using below by (auto simp: nth_append)
  ultimately have "\<exists>k<length (pre @ [c]). Some c = Some ((pre @ [c]) ! k) \<and> dev ((pre @ [c]) ! k) = Inr d
              \<and> (\<forall>j<length (pre @ [c]). \<forall>d'. dev ((pre @ [c]) ! j) = Inr d' \<longrightarrow> d \<le> d')
              \<and> (\<forall>j<k. \<forall>d'. dev ((pre @ [c]) ! j) = Inr d' \<longrightarrow> d < d')"
    using assms(2) by (intro exI[of _ "length pre"]) simp
  then show ?thesis unfolding first_min_def by simp
qed

lemma best_ideal_loop_first_min:
  "first_min (sum_squared_deviation train ideal t) pre st \<Longrightarrow>
   first_min (sum_squared_deviation train ideal t) (pre @ cs) (best_ideal_loop train ideal t cs st)"
proof (induction cs arbitrary: pre st)
  case Nil
  then show ?case by simp
next
  case (Cons c cs)
  obtain mn best where st: "st = (mn, best)" by (cases st)
  show ?case
  proof (cases "sum_squared_deviation train ideal t c")
    case (Inl e)
    from first_min_skip[OF Cons.prems Inl]
    have "first_min (sum_squared_deviation train ideal t) ((pre @ [c]) @ cs)
            (best_ideal_loop train ideal t cs st)" by (rule Cons.IH)
    with Inl st show ?thesis by simp
  next
    case (Inr d)
    show ?thesis
    proof (cases "lt_min d mn")
      case True
      with Cons.prems Inr st
      have "first_min (sum_squared_deviation train ideal t) (pre @ [c]) (Some d, Some c)"
        by (auto intro: first_min_replace)
      then have "first_min (sum_squared_deviation train ideal t) ((pre @ [c]) @ cs)
            (best_ideal_loop train ideal t cs (Some d, Some c))" by (rule Cons.IH)
      with Inr st True show ?thesis by simp
    next
      case False
      with Cons.prems Inr st
      have "first_min (sum_squared_deviation train ideal t) (pre @ [c]) st"
        by (auto intro: first_min_keep)
      then have "first_min (sum_squared_deviation train ideal t) ((pre @ [c]) @ cs)
            (best_ideal_loop train ideal t cs st)" by (rule Cons.IH)
      with Inr st False show ?thesis by simp
    qed
  qed
qed

lemma first_min_start: "first_min dev [] (None, None)"
  by (simp add: first_min_def)

lemma select_loop_sel:
  "map_of (fst (select_loop train ideal ts (sel, devs))) t =
     (if t \<in> set ts then Some (best_ideal_func_name train ideal t) else map_of sel t)"
  by (induction ts arbitrary: sel devs) (auto simp: Let_def update_conv')

lemma select_loop_devs:
  "map_of (snd (select_loop train ideal ts (sel, devs))) t =
     (if t \<in> set ts
      then Some (deviation_bound train ideal t (best_ideal_func_name train ideal t))
      else map_of devs t)"
  by (induction ts arbitrary: sel devs) (auto simp: Let_def update_conv')

lemma select_loop_keys:
  "fst ` set (fst (select_loop train ideal ts (sel, devs))) = fst ` set sel \<union> set ts"
  by (induction ts arbitrary: sel devs) (auto simp: Let_def dom_update)

lemma select_loop_distinct:
  "distinct (map fst sel) \<Longrightarrow> distinct (map fst (fst (select_loop train ideal ts (sel, devs))))"
  by (induction ts arbitrary: sel devs) (auto simp: Let_def distinct_update)

lemma get_ideal_functions_loaded:
  assumes "manager_load_data files TRAIN = Inr train" and "manager_load_data files IDEAL = Inr ideal"
  shows "ideal_functions_selection (fst (get_ideal_functions files self)) =
           fst (select_loop train ideal (columns train) ([], training_data_max_deviations self))"
    and "training_data_max_deviations (fst (get_ideal_functions files self)) =
           snd (select_loop train ideal (columns train) ([], training_data_max_deviations self))"
    and "results_db (fst (get_ideal_functions files self)) = results_db self"
  using assms by (auto simp: get_ideal_functions_def split: prod.splits)

lemma best_ideal_first_min:
  "first_min (sum_squared_deviation train ideal t) (columns ideal)
     (best_ideal_loop train ideal t (columns ideal) (None, None))"
  using best_ideal_loop_first_min[OF first_min_start, of train ideal t "columns ideal"] by simp


section \<open>Example computations\<close>

lemma ex_load:
  "manager_load_data ex_files TRAIN = Inr ex_train"
  "manager_load_data ex_files IDEAL = Inr ex_ideal"
  "manager_load_data ex_files TEST = Inr ex_test"
  by (simp_all add: manager_load_data_def load_data_def ex_files_def empty_frame_def
        ex_train_def ex_ideal_def ex_test_def)

lemma ex_fit1: "fit [Fin 0, Fin 1] [Fin 1, Fin 1] = Inr \<lparr>slope = 0, intercept = 1\<rparr>"
  by (simp add: fit_def sxx_def sxy_def mean_def)

lemma ex_fit2: "fit [Fin 0, Fin 1] [Fin 0, Fin 1] = Inr \<lparr>slope = 1, intercept = 0\<rparr>"
  by (simp add: fit_def sxx_def sxy_def mean_def)

lemma ex_ssd:
  "sum_squared_deviation ex_train ex_ideal ''train_y1'' ''ideal_y1'' = Inr 1"
  "sum_squared_deviation ex_train ex_ideal ''train_y1'' ''ideal_y2'' = Inr 0"
  by (simp_all add: sum_squared_deviation_def column_def ex_train_def ex_ideal_def
        calculate_squared_deviation_def ex_fit1 ex_fit2 predict_def series_sub_def sum_skipna_def)

section \<open>The selection\<close>



section \<open>The regression on a constant x column\<close>

lemma mean_replicate: "0 < n \<Longrightarrow> mean (replicate n c) = c"
  by (simp add: mean_def sum_list_replicate)

lemma constant_is_replicate:
  assumes "\<forall>v\<in>set vs. v = Fin c"
  shows "map the_fin vs = replicate (length vs) c"
  using assms by (induction vs) auto

lemma sxx_replicate: "sxx (replicate n c) = 0"
proof (cases n)
  case 0
  then show ?thesis by (simp add: sxx_def)
next
  case (Suc k)
  then have "0 < n" by simp
  then have "mean (replicate n c) = c" by (rule mean_replicate)
  then show ?thesis by (simp add: sxx_def map_replicate_const sum_list_replicate)
qed

lemma constant_all_fin: "\<forall>v\<in>set vs. v = Fin c \<Longrightarrow> list_all is_fin vs"
  by (induction vs) auto

lemma fit_constant_x:
  assumes "fit_x \<noteq> []" and "length fit_y = length fit_x" and "list_all is_fin fit_y"
    and "\<forall>v\<in>set fit_x. v = Fin c"
  shows "fit fit_x fit_y = Inr \<lparr>slope = 0, intercept = mean (map the_fin fit_y)\<rparr>"
proof -
  have "sxx (map the_fin fit_x) = 0"
    using constant_is_replicate[OF assms(4)] by (simp add: sxx_replicate)
  then show ?thesis
    using assms(1-3) constant_all_fin[OF assms(4)] by (simp add: fit_def)
qed

text \<open>
  Claim C9. When all fit x values are equal (and there is at least one point, with defined
  y values), the fit does not fail: it returns slope 0 and the mean of the fit y values as
  intercept, the prediction at every defined query point is that mean, and the sum of
  squared deviations of a training column is computed against it.
\<close>

theorem constant_x_fit_falls_back_to_mean:
  assumes "fit_x \<noteq> []" and "length fit_y = length fit_x" and "list_all is_fin fit_y"
    and "\<forall>v\<in>set fit_x. v = Fin c" and "list_all is_fin query_x"
    and "length train_y = length fit_x"
  shows "fit fit_x fit_y = Inr \<lparr>slope = 0, intercept = mean (map the_fin fit_y)\<rparr>
       \<and> predict \<lparr>slope = 0, intercept = mean (map the_fin fit_y)\<rparr> query_x
           = Inr (map (\<lambda>q. mean (map the_fin fit_y)) query_x)
       \<and> calculate_squared_deviation train_y fit_y fit_x
           = Inr (sum_skipna (map (\<lambda>y. fl_sq (fl_sub y (mean (map the_fin fit_y)))) train_y))"
proof -
  let ?mu = "mean (map the_fin fit_y)"
  have f: "fit fit_x fit_y = Inr \<lparr>slope = 0, intercept = ?mu\<rparr>"
    by (rule fit_constant_x[OF assms(1-4)])
  have p: "predict \<lparr>slope = 0, intercept = ?mu\<rparr> query_x = Inr (map (\<lambda>q. ?mu) query_x)"
    using assms(5) by (simp add: predict_def)
  have px: "predict \<lparr>slope = 0, intercept = ?mu\<rparr> fit_x = Inr (map (\<lambda>q. ?mu) fit_x)"
    using constant_all_fin[OF assms(4)] by (simp add: predict_def)
  have z: "map2 fl_sub train_y (map (\<lambda>q. ?mu) fit_x) = map (\<lambda>y. fl_sub y ?mu) train_y"
    using assms(6) by (induction train_y fit_x rule: list_induct2) auto
  have "calculate_squared_deviation train_y fit_y fit_x
           = Inr (sum_skipna (map (\<lambda>y. fl_sq (fl_sub y ?mu)) train_y))"
    using assms(6) by (simp add: calculate_squared_deviation_def f px series_sub_def z comp_def)
  with f p show ?thesis by simp
qed

theorem constant_x_fit_falls_back_to_mean_witness:
  "fit [Fin 2, Fin 2] [Fin 1, Fin 3] = Inr \<lparr>slope = 0, intercept = 2\<rparr>
   \<and> predict \<lparr>slope = 0, intercept = 2\<rparr> [Fin 7] = Inr [2]
   \<and> calculate_squared_deviation [Fin 2, Fin 5] [Fin 1, Fin 3] [Fin 2, Fin 2] = Inr 9"
proof -
  have a: "[Fin 2, Fin 2] \<noteq> ([] :: fval list)" by simp
  have b: "length [Fin 1, Fin 3] = length [Fin 2, Fin 2]" by simp
  have c: "list_all is_fin [Fin 1, Fin 3]" by simp
  have d: "\<forall>v\<in>set [Fin 2, Fin 2]. v = Fin 2" by simp
  have e: "list_all is_fin [Fin 7]" by simp
  have g: "length [Fin 2, Fin 5] = length [Fin 2, Fin 2]" by simp
  have m: "mean [1, 3] = 2" by (simp add: mean_def)
  show ?thesis
    using constant_x_fit_falls_back_to_mean[OF a b c d e g] by (simp add: m sum_skipna_def)
qed

section \<open>Training columns without a usable ideal column\<close>

lemma best_ideal_func_name_None_iff:
  "best_ideal_func_name train ideal t = None \<longleftrightarrow>
     (\<forall>c\<in>set (columns ideal). \<forall>d. sum_squared_deviation train ideal t c \<noteq> Inr d)"
proof -
  let ?r = "best_ideal_loop train ideal t (columns ideal) (None, None)"
  have fm: "first_min (sum_squared_deviation train ideal t) (columns ideal) ?r"
    by (rule best_ideal_first_min)
  show ?thesis
  proof (cases "fst ?r")
    case None
    with fm show ?thesis by (simp add: first_min_def best_ideal_func_name_def)
  next
    case (Some m)
    with fm obtain k where k: "k < length (columns ideal)" "snd ?r = Some (columns ideal ! k)"
      "sum_squared_deviation train ideal t (columns ideal ! k) = Inr m"
      by (auto simp: first_min_def)
    from k(1) have "columns ideal ! k \<in> set (columns ideal)" by simp
    with k(2,3) show ?thesis by (auto simp: best_ideal_func_name_def)
  qed
qed

lemma deviation_bound_None: "deviation_bound train ideal t None = NaN"
  by (simp add: deviation_bound_def max_deviation_train_def)

lemma deviation_bound_failed:
  "max_deviation_train train ideal t best = Inl e \<Longrightarrow> deviation_bound train ideal t best = NaN"
  by (simp add: deviation_bound_def)

lemma ex_load_nan:
  "manager_load_data ex_files_nan TRAIN = Inr ex_train"
  "manager_load_data ex_files_nan IDEAL = Inr ex_ideal_nan"
  "manager_load_data ex_files_nan TEST = Inr ex_test"
  by (simp_all add: manager_load_data_def load_data_def ex_files_nan_def empty_frame_def
        ex_train_def ex_ideal_nan_def ex_test_def)

lemma ex_nan_fit: "fit [Fin 0, Fin 1] [NaN, Fin 1] = Inl ValueError"
  by (simp add: fit_def)

lemma ex_nan_ssd:
  "sum_squared_deviation ex_train ex_ideal_nan ''train_y1'' ''ideal_y1'' = Inl ValueError"
  "sum_squared_deviation ex_train ex_ideal_nan ''train_y2'' ''ideal_y1'' = Inl ValueError"
  by (simp_all add: sum_squared_deviation_def column_def ex_train_def ex_ideal_nan_def
        calculate_squared_deviation_def ex_nan_fit)

lemma ex_columns:
  "columns ex_train = [''train_y1'', ''train_y2'']"
  "columns ex_ideal = [''ideal_y1'', ''ideal_y2'']"
  "columns ex_ideal_nan = [''ideal_y1'']"
  by (simp_all add: columns_def ex_train_def ex_ideal_def ex_ideal_nan_def)

lemma ex_nan_best:
  "best_ideal_func_name ex_train ex_ideal_nan ''train_y1'' = None"
  "best_ideal_func_name ex_train ex_ideal_nan ''train_y2'' = None"
  by (simp_all add: best_ideal_func_name_def ex_columns ex_nan_ssd)

lemma ex_nan_selection:
  "get_ideal_functions ex_files_nan (init_manager db) =
     (\<lparr>ideal_functions_selection = [(''train_y1'', None), (''train_y2'', None)],
       training_data_max_deviations = [(''train_y1'', NaN), (''train_y2'', NaN)],
       results_db = db\<rparr>, Some ValueError)"
  by (simp add: get_ideal_functions_def ex_load_nan init_manager_def ex_columns
        ex_nan_best deviation_bound_None chosen_frame_error_def)

lemma ex_test_rows: "iterrows ex_test = Inr [(Fin 1, Fin 1), (Fin 2, Fin 5)]"
  by (simp add: iterrows_def column_def ex_test_def)

text \<open>
  When the refit of the chosen ideal column fails for a training column \<open>t\<close>, the
  deviation stored for \<open>t\<close> is NaN, and the loop goes on: every training column of the
  table has its entry in the selection and in the deviations afterwards.
\<close>

lemma failed_refit_gives_nan_bound:
  assumes "manager_load_data files TRAIN = Inr train_data"
    and "manager_load_data files IDEAL = Inr ideal_data"
    and "t \<in> set (columns train_data)"
    and "max_deviation_train train_data ideal_data t
           (best_ideal_func_name train_data ideal_data t) = Inl e"
  shows "map_of (training_data_max_deviations (fst (get_ideal_functions files self))) t = Some NaN
       \<and> (\<forall>u\<in>set (columns train_data).
            map_of (ideal_functions_selection (fst (get_ideal_functions files self))) u
              = Some (best_ideal_func_name train_data ideal_data u)
          \<and> map_of (training_data_max_deviations (fst (get_ideal_functions files self))) u
              = Some (deviation_bound train_data ideal_data u
                        (best_ideal_func_name train_data ideal_data u)))"
  using assms(3) deviation_bound_failed[OF assms(4)]
  by (simp add: get_ideal_functions_loaded[OF assms(1,2)] select_loop_sel select_loop_devs)

text \<open>
  After a selection run that loaded its tables the selection has exactly one entry per
  training column, whether or not a fit succeeded: a column with at least one computable
  deviation is mapped to an ideal column, and a column for which every ideal fit fails is
  mapped to \<open>None\<close>, with NaN as its deviation.
\<close>

lemma selection_has_entry_for_every_training_column:
  assumes "manager_load_data files TRAIN = Inr train_data"
    and "manager_load_data files IDEAL = Inr ideal_data"
  shows "distinct (map fst (ideal_functions_selection (fst (get_ideal_functions files self))))
       \<and> set (map fst (ideal_functions_selection (fst (get_ideal_functions files self))))
           = set (columns train_data)
       \<and> (\<forall>t\<in>set (columns train_data).
            if \<exists>c\<in>set (columns ideal_data). \<exists>d.
                 sum_squared_deviation train_data ideal_data t c = Inr d
            then \<exists>n. map_of (ideal_functions_selection (fst (get_ideal_functions files self))) t
                       = Some (Some n)
            else map_of (ideal_functions_selection (fst (get_ideal_functions files self))) t = Some None
               \<and> map_of (training_data_max_deviations (fst (get_ideal_functions files self))) t
                   = Some NaN)"
proof -
  let ?sel = "ideal_functions_selection (fst (get_ideal_functions files self))"
  let ?devs = "training_data_max_deviations (fst (get_ideal_functions files self))"
  have d: "distinct (map fst ?sel)"
    by (simp add: get_ideal_functions_loaded(1)[OF assms] select_loop_distinct)
  have k: "set (map fst ?sel) = set (columns train_data)"
    using select_loop_keys[of train_data ideal_data "columns train_data" "[]"]
    by (simp add: get_ideal_functions_loaded(1)[OF assms])
  have e: "if \<exists>c\<in>set (columns ideal_data). \<exists>d. sum_squared_deviation train_data ideal_data t c = Inr d
           then \<exists>n. map_of ?sel t = Some (Some n)
           else map_of ?sel t = Some None \<and> map_of ?devs t = Some NaN"
    if t: "t \<in> set (columns train_data)" for t
  proof -
    have s: "map_of ?sel t = Some (best_ideal_func_name train_data ideal_data t)"
      using t by (simp add: get_ideal_functions_loaded(1)[OF assms] select_loop_sel)
    have v: "map_of ?devs t = Some (deviation_bound train_data ideal_data t
               (best_ideal_func_name train_data ideal_data t))"
      using t by (simp add: get_ideal_functions_loaded(2)[OF assms] select_loop_devs)
    show ?thesis
    proof (cases "best_ideal_func_name train_data ideal_data t")
      case None
      then have "\<not> (\<exists>c\<in>set (columns ideal_data). \<exists>d. sum_squared_deviation train_data ideal_data t c = Inr d)"
        by (simp add: best_ideal_func_name_None_iff)
      with None s v show ?thesis by (simp add: deviation_bound_None)
    next
      case (Some n)
      then have "\<exists>c\<in>set (columns ideal_data). \<exists>d. sum_squared_deviation train_data ideal_data t c = Inr d"
        using best_ideal_func_name_None_iff[of train_data ideal_data t] by auto
      with Some s show ?thesis by simp
    qed
  qed
  from d k e show ?thesis by blast
qed

text \<open>
  Claim C3 at the example whose only ideal column has a missing cell. Every ideal fit
  fails for both training columns, yet both are in the selection (mapped to \<open>None\<close>)
  and in the deviations (mapped to NaN), and the mapping of the test data that follows
  does not skip them: it ends with a \<open>KeyError\<close>.
\<close>

theorem column_without_fit_is_kept:
  "columns ex_ideal_nan = [''ideal_y1'']
   \<and> sum_squared_deviation ex_train ex_ideal_nan ''train_y1'' ''ideal_y1'' = Inl ValueError
   \<and> ideal_functions_selection (fst (get_ideal_functions ex_files_nan (init_manager Map.empty)))
       = [(''train_y1'', None), (''train_y2'', None)]
   \<and> training_data_max_deviations (fst (get_ideal_functions ex_files_nan (init_manager Map.empty)))
       = [(''train_y1'', NaN), (''train_y2'', NaN)]
   \<and> map_test_data_to_ideal_functions ex_files_nan
        (fst (get_ideal_functions ex_files_nan (init_manager Map.empty))) = Inl KeyError"
  by (simp add: ex_nan_selection ex_nan_ssd map_test_data_to_ideal_functions_def ex_load_nan
        ex_test_rows ex_columns)

theorem column_without_fit_is_kept_witness:
  "map_of (ideal_functions_selection (fst (get_ideal_functions ex_files_nan (init_manager Map.empty))))
     ''train_y1'' = Some None
   \<and> map_of (training_data_max_deviations (fst (get_ideal_functions ex_files_nan (init_manager Map.empty))))
     ''train_y1'' = Some NaN"
  using column_without_fit_is_kept by simp

section \<open>The acceptance criterion\<close>






section \<open>The loop over the chosen functions\<close>

lemma try_pair_Inl:
  "try_pair ideal devs x0 y0 t n ys st = Inl e \<Longrightarrow> \<not> pair_accepted ideal devs x0 y0 t ys"
  by (auto simp: try_pair_def pair_accepted_def split: sum.splits)







section \<open>The example data set, computed\<close>

lemma ex_ssd2:
  "sum_squared_deviation ex_train ex_ideal ''train_y2'' ''ideal_y1'' = Inr 0"
  "sum_squared_deviation ex_train ex_ideal ''train_y2'' ''ideal_y2'' = Inr 1"
  by (simp_all add: sum_squared_deviation_def column_def ex_train_def ex_ideal_def
        calculate_squared_deviation_def ex_fit1 ex_fit2 predict_def series_sub_def sum_skipna_def)

lemma ex_best:
  "best_ideal_func_name ex_train ex_ideal ''train_y1'' = Some ''ideal_y2''"
  "best_ideal_func_name ex_train ex_ideal ''train_y2'' = Some ''ideal_y1''"
  by (simp_all add: best_ideal_func_name_def ex_columns ex_ssd ex_ssd2)

lemma ex_bound:
  "deviation_bound ex_train ex_ideal ''train_y1'' (Some ''ideal_y2'') = Fin 0"
  "deviation_bound ex_train ex_ideal ''train_y2'' (Some ''ideal_y1'') = Fin 0"
  by (simp_all add: deviation_bound_def max_deviation_train_def column_def ex_train_def
        ex_ideal_def ex_fit1 ex_fit2 predict_def series_sub_def py_max_def)

lemma ex_selection:
  "get_ideal_functions ex_files (init_manager db) =
     (\<lparr>ideal_functions_selection = [(''train_y1'', Some ''ideal_y2''), (''train_y2'', Some ''ideal_y1'')],
       training_data_max_deviations = [(''train_y1'', Fin 0), (''train_y2'', Fin 0)],
       results_db = db\<rparr>, None)"
  by (simp add: get_ideal_functions_def ex_load init_manager_def ex_columns ex_best ex_bound
        chosen_frame_error_def)

lemma ex_ideal_column:
  "column ex_ideal ''ideal_y1'' = Inr [Fin 1, Fin 1]"
  "column ex_ideal ''ideal_y2'' = Inr [Fin 0, Fin 1]"
  "x_col ex_ideal = [Fin 0, Fin 1]"
  by (simp_all add: column_def ex_ideal_def)

lemma ex_deviation_test_point:
  "deviation_test_point ex_ideal [Fin 1, Fin 1] (Fin xv) (Fin yv) = Inr (Fin \<bar>yv - 1\<bar>)"
  "deviation_test_point ex_ideal [Fin 0, Fin 1] (Fin xv) (Fin yv) = Inr (Fin \<bar>yv - xv\<bar>)"
  by (simp_all add: deviation_test_point_def ex_ideal_column ex_fit1 ex_fit2 predict_def)

lemma ex_map_rows:
  "map_rows ex_ideal [(''train_y1'', Some ''ideal_y2''), (''train_y2'', Some ''ideal_y1'')]
     [(''train_y1'', Fin 0), (''train_y2'', Fin 0)] [(Fin 1, Fin 1), (Fin 2, Fin 5)]
   = Inr [\<lparr>test_x = Fin 1, test_y = Fin 1, delta_y = Some 0, ideal_func = ''ideal_y2'',
           training_data_column = Some ''train_y1''\<rparr>]"
  by (simp add: ex_ideal_column try_pair_def ex_deviation_test_point within_bound_def
        result_rows_def)


section \<open>The mapping loop\<close>






section \<open>The mapping operation on the examples\<close>

lemma ex_load_far:
  "manager_load_data ex_files_far TEST = Inr ex_test_far"
  "manager_load_data ex_files_far IDEAL = Inr ex_ideal"
  by (simp_all add: manager_load_data_def load_data_def ex_files_far_def empty_frame_def
        ex_test_far_def ex_ideal_def)

lemma ex_load_no_test:
  "manager_load_data ex_files_no_test TEST = Inl LoadError"
  by (simp add: manager_load_data_def load_data_def ex_files_no_test_def)

lemma ex_load_one:
  "manager_load_data ex_files_one TRAIN = Inr ex_train_one"
  "manager_load_data ex_files_one IDEAL = Inr ex_ideal"
  by (simp_all add: manager_load_data_def load_data_def ex_files_one_def empty_frame_def
        ex_train_one_def ex_ideal_def)

lemma ex_test_far_rows: "iterrows ex_test_far = Inr [(Fin 2, Fin 5)]"
  by (simp add: iterrows_def column_def ex_test_far_def)

lemma ex_selected_eq: "get_ideal_functions ex_files (init_manager Map.empty) = (ex_selected, None)"
  by (simp add: ex_selection ex_selected_def)

lemma ex_map_rows_far:
  "map_rows ex_ideal [(''train_y1'', Some ''ideal_y2''), (''train_y2'', Some ''ideal_y1'')]
     [(''train_y1'', Fin 0), (''train_y2'', Fin 0)] [(Fin 2, Fin 5)] = Inr []"
  by (simp add: ex_ideal_column try_pair_def ex_deviation_test_point within_bound_def
        result_rows_def)

lemma ex_first_mapping:
  "map_test_data_to_ideal_functions ex_files ex_selected = Inr (ex_mapped, [PointsMapped 1])"
  by (simp add: map_test_data_to_ideal_functions_def ex_load ex_test_rows ex_selected_def
        ex_map_rows ex_mapped_def save_data_def drop_training_data_column_def ex_stored_row_def
        del: map_rows.simps)

lemma ex_second_mapping_far:
  "map_test_data_to_ideal_functions ex_files_far ex_mapped
     = Inr (ex_mapped, [ErrorSavingResults, PointsMapped 0, NoPointsMapped])"
  by (simp add: map_test_data_to_ideal_functions_def ex_load_far ex_test_far_rows ex_selected_def
        ex_map_rows_far ex_mapped_def del: map_rows.simps)

lemma ex_second_mapping_no_test:
  "map_test_data_to_ideal_functions ex_files_no_test ex_mapped = Inr (ex_mapped, [DataLoadingFailed])"
  by (simp add: map_test_data_to_ideal_functions_def ex_load_no_test)









lemma mapping_saves_in_place_of_table:
  assumes "manager_load_data files TEST = Inr test_data"
    and "manager_load_data files IDEAL = Inr ideal_data"
    and "iterrows test_data = Inr test_rows"
    and "map_rows ideal_data (ideal_functions_selection self)
           (training_data_max_deviations self) test_rows = Inr mapping_results"
    and "mapping_results \<noteq> []"
  shows "\<exists>self'. map_test_data_to_ideal_functions files self
                    = Inr (self', [PointsMapped (length mapping_results)])
           \<and> results_db self' ''TestDataMapping''
               = Some (map drop_training_data_column mapping_results)
           \<and> ideal_functions_selection self' = ideal_functions_selection self
           \<and> training_data_max_deviations self' = training_data_max_deviations self"
  using assms by (simp add: map_test_data_to_ideal_functions_def save_data_def)

lemma mapping_without_tables:
  assumes "manager_load_data files TEST = Inl e \<or> manager_load_data files IDEAL = Inl e"
  shows "map_test_data_to_ideal_functions files self = Inr (self, [DataLoadingFailed])"
  using assms by (auto simp: map_test_data_to_ideal_functions_def split: sum.splits)

text \<open>
  Claim C10, as the code has it. A mapping that loads its tables and maps at least one
  test point saves its rows in place of the stored table: afterwards the table
  \<open>TestDataMapping\<close> holds exactly the rows of this invocation, whatever it held before,
  and the selection and the deviations are as before. A mapping that cannot load one of
  its tables reports that and leaves the state, with the stored table, as it was.
\<close>

theorem saved_mapping_replaces_stored_table:
  "(manager_load_data files TEST = Inr test_data \<longrightarrow>
    manager_load_data files IDEAL = Inr ideal_data \<longrightarrow>
    iterrows test_data = Inr test_rows \<longrightarrow>
    map_rows ideal_data (ideal_functions_selection self)
      (training_data_max_deviations self) test_rows = Inr mapping_results \<longrightarrow>
    mapping_results \<noteq> [] \<longrightarrow>
      (\<exists>self'. map_test_data_to_ideal_functions files self
                    = Inr (self', [PointsMapped (length mapping_results)])
           \<and> results_db self' ''TestDataMapping''
               = Some (map drop_training_data_column mapping_results)
           \<and> ideal_functions_selection self' = ideal_functions_selection self
           \<and> training_data_max_deviations self' = training_data_max_deviations self))
   \<and> (manager_load_data files TEST = Inl e \<or> manager_load_data files IDEAL = Inl e \<longrightarrow>
        map_test_data_to_ideal_functions files self = Inr (self, [DataLoadingFailed]))"
  using mapping_saves_in_place_of_table mapping_without_tables by blast

theorem saved_mapping_replaces_stored_table_witness:
  "results_db ex_mapped ''TestDataMapping'' = Some [ex_stored_row]
   \<and> (\<exists>self'. map_test_data_to_ideal_functions ex_files ex_mapped = Inr (self', [PointsMapped 1])
         \<and> results_db self' ''TestDataMapping'' = Some [ex_stored_row])
   \<and> map_test_data_to_ideal_functions ex_files_no_test ex_mapped
       = Inr (ex_mapped, [DataLoadingFailed])"
proof -
  have m: "map_rows ex_ideal (ideal_functions_selection ex_mapped)
             (training_data_max_deviations ex_mapped) [(Fin 1, Fin 1), (Fin 2, Fin 5)]
           = Inr [\<lparr>test_x = Fin 1, test_y = Fin 1, delta_y = Some 0, ideal_func = ''ideal_y2'',
                   training_data_column = Some ''train_y1''\<rparr>]"
    using ex_map_rows by (simp add: ex_mapped_def ex_selected_def del: map_rows.simps)
  have n: "[\<lparr>test_x = Fin 1, test_y = Fin 1, delta_y = Some 0, ideal_func = ''ideal_y2'',
              training_data_column = Some ''train_y1''\<rparr>] \<noteq> []" by simp
  have t: "results_db ex_mapped ''TestDataMapping'' = Some [ex_stored_row]"
    by (simp add: ex_mapped_def)
  have a: "\<exists>self'. map_test_data_to_ideal_functions ex_files ex_mapped = Inr (self', [PointsMapped 1])
         \<and> results_db self' ''TestDataMapping'' = Some [ex_stored_row]"
    using saved_mapping_replaces_stored_table[where files = ex_files and self = ex_mapped,
        THEN conjunct1, rule_format, OF ex_load(3) ex_load(2) ex_test_rows m n]
    by (auto simp: drop_training_data_column_def ex_stored_row_def)
  have b: "map_test_data_to_ideal_functions ex_files_no_test ex_mapped
             = Inr (ex_mapped, [DataLoadingFailed])"
    using saved_mapping_replaces_stored_table[where files = ex_files_no_test and self = ex_mapped
        and e = LoadError, THEN conjunct2] ex_load_no_test
    by simp
  from t a b show ?thesis by blast
qed

text \<open>
  Claim C10 as stated fails: after a mapping that stored one row, a mapping that cannot
  load the test data, and a mapping whose test point is outside every bound, both leave
  that row in the stored table.
\<close>

theorem stored_table_outlives_later_mapping_counterexample:
  "map_test_data_to_ideal_functions ex_files ex_selected = Inr (ex_mapped, [PointsMapped 1])
   \<and> results_db ex_mapped ''TestDataMapping'' = Some [ex_stored_row]
   \<and> map_test_data_to_ideal_functions ex_files_no_test ex_mapped
       = Inr (ex_mapped, [DataLoadingFailed])
   \<and> map_test_data_to_ideal_functions ex_files_far ex_mapped
       = Inr (ex_mapped, [ErrorSavingResults, PointsMapped 0, NoPointsMapped])"
  by (simp add: ex_first_mapping ex_second_mapping_no_test ex_second_mapping_far)
     (simp add: ex_mapped_def)

section \<open>A second selection run\<close>

lemma ex_one_ssd:
  "sum_squared_deviation ex_train_one ex_ideal ''train_y1'' ''ideal_y1'' = Inr 2"
  "sum_squared_deviation ex_train_one ex_ideal ''train_y1'' ''ideal_y2'' = Inr 1"
  by (simp_all add: sum_squared_deviation_def column_def ex_train_one_def ex_ideal_def
        calculate_squared_deviation_def ex_fit1 ex_fit2 predict_def series_sub_def sum_skipna_def)

lemma ex_one_best: "best_ideal_func_name ex_train_one ex_ideal ''train_y1'' = Some ''ideal_y2''"
  by (simp add: best_ideal_func_name_def ex_columns ex_one_ssd)

lemma ex_one_bound:
  "deviation_bound ex_train_one ex_ideal ''train_y1'' (Some ''ideal_y2'') = Fin 1"
  by (simp add: deviation_bound_def max_deviation_train_def column_def ex_train_one_def
        ex_ideal_def ex_fit2 predict_def series_sub_def py_max_def)

text \<open>
  Claim C6 at a pair of runs: the first run has the training columns \<open>train_y1\<close> and
  \<open>train_y2\<close>, the second only \<open>train_y1\<close>. After the second run the selection holds
  only \<open>train_y1\<close>, but the deviations still hold the entry of \<open>train_y2\<close> from the first
  run, next to the recomputed entry of \<open>train_y1\<close>.
\<close>

theorem second_selection_run_keeps_old_deviation:
  "get_ideal_functions ex_files (init_manager Map.empty) = (ex_selected, None)
   \<and> get_ideal_functions ex_files_one ex_selected =
       (\<lparr>ideal_functions_selection = [(''train_y1'', Some ''ideal_y2'')],
         training_data_max_deviations = [(''train_y1'', Fin 1), (''train_y2'', Fin 0)],
         results_db = Map.empty\<rparr>, None)"
  by (simp add: ex_selected_eq)
     (simp add: get_ideal_functions_def ex_load_one ex_selected_def columns_def ex_train_one_def
        ex_one_best [unfolded ex_train_one_def] ex_one_bound [unfolded ex_train_one_def]
        chosen_frame_error_def)

theorem second_selection_run_keeps_old_deviation_witness:
  "map_of (ideal_functions_selection (fst (get_ideal_functions ex_files_one ex_selected))) ''train_y2''
     = None
   \<and> map_of (training_data_max_deviations (fst (get_ideal_functions ex_files_one ex_selected)))
       ''train_y2'' = Some (Fin 0)"
  using second_selection_run_keeps_old_deviation by simp

section \<open>The ideal columns in another order\<close>

lemma best_ideal_func_name_Some:
  assumes "best_ideal_func_name train ideal t = Some n"
  shows "n \<in> set (columns ideal) \<and>
         (\<exists>d. sum_squared_deviation train ideal t n = Inr d
            \<and> (\<forall>c\<in>set (columns ideal). \<forall>d'.
                  sum_squared_deviation train ideal t c = Inr d' \<longrightarrow> d \<le> d'))"
proof -
  let ?r = "best_ideal_loop train ideal t (columns ideal) (None, None)"
  have fm: "first_min (sum_squared_deviation train ideal t) (columns ideal) ?r"
    by (rule best_ideal_first_min)
  from assms have s: "snd ?r = Some n" by (simp add: best_ideal_func_name_def)
  with fm obtain m where m: "fst ?r = Some m" by (cases "fst ?r") (auto simp: first_min_def)
  with fm s obtain k where k: "k < length (columns ideal)" "n = columns ideal ! k"
    "sum_squared_deviation train ideal t (columns ideal ! k) = Inr m"
    "\<forall>j<length (columns ideal). \<forall>d. sum_squared_deviation train ideal t (columns ideal ! j) = Inr d
        \<longrightarrow> m \<le> d"
    by (auto simp: first_min_def)
  have "\<forall>c\<in>set (columns ideal). \<forall>d'. sum_squared_deviation train ideal t c = Inr d' \<longrightarrow> m \<le> d'"
    using k(4) by (auto simp: in_set_conv_nth)
  with k(1-3) show ?thesis by auto
qed

lemma shuffled_column:
  assumes "distinct (columns ideal)" and "distinct (columns shuffled)"
    and "set (y_cols shuffled) = set (y_cols ideal)"
  shows "column shuffled c = column ideal c"
proof -
  have "map_of (y_cols shuffled) = map_of (y_cols ideal)"
    using assms by (simp add: columns_def map_of_inject_set)
  then show ?thesis by (simp add: column_def)
qed

lemma shuffled_deviation:
  assumes "distinct (columns ideal)" and "distinct (columns shuffled)"
    and "set (y_cols shuffled) = set (y_cols ideal)"
  shows "sum_squared_deviation train shuffled t c = sum_squared_deviation train ideal t c"
  unfolding sum_squared_deviation_def shuffled_column[OF assms] by (rule refl)

lemma shuffled_columns:
  "set (y_cols shuffled) = set (y_cols ideal) \<Longrightarrow> set (columns shuffled) = set (columns ideal)"
  by (simp add: columns_def)

lemma shuffled_best:
  assumes "distinct (columns ideal)" and "distinct (columns shuffled)"
    and "set (y_cols shuffled) = set (y_cols ideal)"
  shows "(best_ideal_func_name train shuffled t = None \<longleftrightarrow> best_ideal_func_name train ideal t = None)"
    and "best_ideal_func_name train ideal t = Some n \<Longrightarrow>
         best_ideal_func_name train shuffled t = Some n' \<Longrightarrow>
         sum_squared_deviation train shuffled t n' = sum_squared_deviation train ideal t n"
    and "best_ideal_func_name train ideal t = Some n \<Longrightarrow>
         best_ideal_func_name train shuffled t = Some n' \<Longrightarrow>
         (\<forall>c\<in>set (columns ideal). sum_squared_deviation train ideal t c
              = sum_squared_deviation train ideal t n \<longrightarrow> c = n) \<Longrightarrow> n' = n"
proof -
  note dev = shuffled_deviation[OF assms]
  note cols = shuffled_columns[OF assms(3)]
  show "(best_ideal_func_name train shuffled t = None \<longleftrightarrow> best_ideal_func_name train ideal t = None)"
    by (simp add: best_ideal_func_name_None_iff dev cols)
  {
    assume b: "best_ideal_func_name train ideal t = Some n"
      and b': "best_ideal_func_name train shuffled t = Some n'"
    from best_ideal_func_name_Some[OF b] obtain d where d: "n \<in> set (columns ideal)"
      "sum_squared_deviation train ideal t n = Inr d"
      "\<forall>c\<in>set (columns ideal). \<forall>d'. sum_squared_deviation train ideal t c = Inr d' \<longrightarrow> d \<le> d'"
      by blast
    from best_ideal_func_name_Some[OF b'] obtain e where e: "n' \<in> set (columns ideal)"
      "sum_squared_deviation train ideal t n' = Inr e"
      "\<forall>c\<in>set (columns ideal). \<forall>d'. sum_squared_deviation train ideal t c = Inr d' \<longrightarrow> e \<le> d'"
      by (auto simp: dev cols)
    from d(3) e(1,2) have "d \<le> e" by blast
    moreover from e(3) d(1,2) have "e \<le> d" by blast
    ultimately have de: "d = e" by simp
    with d(2) e(2) have same: "sum_squared_deviation train ideal t n' = sum_squared_deviation train ideal t n"
      by simp
    then have s1: "sum_squared_deviation train shuffled t n' = sum_squared_deviation train ideal t n"
      by (simp add: dev)
    have s2: "n' = n" if "\<forall>c\<in>set (columns ideal). sum_squared_deviation train ideal t c
              = sum_squared_deviation train ideal t n \<longrightarrow> c = n"
      using that e(1) same by blast
    note s1 s2
  }
  then show "best_ideal_func_name train ideal t = Some n \<Longrightarrow>
         best_ideal_func_name train shuffled t = Some n' \<Longrightarrow>
         sum_squared_deviation train shuffled t n' = sum_squared_deviation train ideal t n"
    and "best_ideal_func_name train ideal t = Some n \<Longrightarrow>
         best_ideal_func_name train shuffled t = Some n' \<Longrightarrow>
         (\<forall>c\<in>set (columns ideal). sum_squared_deviation train ideal t c
              = sum_squared_deviation train ideal t n \<longrightarrow> c = n) \<Longrightarrow> n' = n"
    by blast+
qed

lemma ex_load_tie:
  "manager_load_data ex_files_tie TRAIN = Inr ex_train_tie"
  "manager_load_data ex_files_tie IDEAL = Inr ex_ideal_tie"
  "manager_load_data ex_files_tie_shuffled TRAIN = Inr ex_train_tie"
  "manager_load_data ex_files_tie_shuffled IDEAL = Inr ex_ideal_tie_shuffled"
  "manager_load_data ex_files_shuffled TRAIN = Inr ex_train"
  "manager_load_data ex_files_shuffled IDEAL = Inr ex_ideal_shuffled"
  by (simp_all add: manager_load_data_def load_data_def ex_files_tie_def ex_files_tie_shuffled_def
        ex_files_shuffled_def empty_frame_def ex_train_tie_def ex_train_def ex_ideal_tie_def
        ex_ideal_tie_shuffled_def ex_ideal_shuffled_def)

lemma ex_tie_columns:
  "columns ex_train_tie = [''train_y1'']"
  "columns ex_ideal_tie = [''ideal_y1'', ''ideal_y2'']"
  "columns ex_ideal_tie_shuffled = [''ideal_y2'', ''ideal_y1'']"
  "columns ex_ideal_shuffled = [''ideal_y2'', ''ideal_y1'']"
  by (simp_all add: columns_def ex_train_tie_def ex_ideal_tie_def ex_ideal_tie_shuffled_def
        ex_ideal_shuffled_def)

lemma ex_tie_fit:
  "fit [Fin 0, Fin 1, Fin 2] [Fin 0, Fin 1, Fin 2] = Inr \<lparr>slope = 1, intercept = 0\<rparr>"
  "fit [Fin 0, Fin 1, Fin 2] [Fin 1, Fin (- 1), Fin 3] = Inr \<lparr>slope = 1, intercept = 0\<rparr>"
  by (simp_all add: fit_def sxx_def sxy_def mean_def)

lemma ex_tie_ssd:
  "sum_squared_deviation ex_train_tie ex_ideal_tie ''train_y1'' ''ideal_y1'' = Inr 0"
  "sum_squared_deviation ex_train_tie ex_ideal_tie ''train_y1'' ''ideal_y2'' = Inr 0"
  "sum_squared_deviation ex_train_tie ex_ideal_tie_shuffled ''train_y1'' ''ideal_y1'' = Inr 0"
  "sum_squared_deviation ex_train_tie ex_ideal_tie_shuffled ''train_y1'' ''ideal_y2'' = Inr 0"
  by (simp_all add: sum_squared_deviation_def column_def ex_train_tie_def ex_ideal_tie_def
        ex_ideal_tie_shuffled_def calculate_squared_deviation_def ex_tie_fit predict_def
        series_sub_def sum_skipna_def)

lemma ex_tie_best:
  "best_ideal_func_name ex_train_tie ex_ideal_tie ''train_y1'' = Some ''ideal_y1''"
  "best_ideal_func_name ex_train_tie ex_ideal_tie_shuffled ''train_y1'' = Some ''ideal_y2''"
  by (simp_all add: best_ideal_func_name_def ex_tie_columns ex_tie_ssd)

text \<open>
  Claim C7, as the code has it. When the ideal table of a second run has the same columns
  in another order, every training column gets an ideal column with the same sum of
  squared deviations as in the first run (and none in both runs or in neither). The
  selected column itself is the same whenever only one ideal column attains the least
  deviation; among several columns that attain it, the first in the order of the table is
  selected.
\<close>

theorem shuffled_ideal_columns_keep_least_deviation:
  assumes "manager_load_data files TRAIN = Inr train_data"
    and "manager_load_data files IDEAL = Inr ideal_data"
    and "manager_load_data files' TRAIN = Inr train_data"
    and "manager_load_data files' IDEAL = Inr shuffled"
    and "distinct (columns ideal_data)" and "distinct (columns shuffled)"
    and "set (y_cols shuffled) = set (y_cols ideal_data)"
    and "t \<in> set (columns train_data)"
  shows "\<exists>b b'. map_of (ideal_functions_selection (fst (get_ideal_functions files self))) t = Some b
           \<and> map_of (ideal_functions_selection (fst (get_ideal_functions files' self'))) t = Some b'
           \<and> (b' = None \<longleftrightarrow> b = None)
           \<and> (\<forall>n n'. b = Some n \<longrightarrow> b' = Some n' \<longrightarrow>
                 sum_squared_deviation train_data shuffled t n'
                   = sum_squared_deviation train_data ideal_data t n
                 \<and> ((\<forall>c\<in>set (columns ideal_data).
                        sum_squared_deviation train_data ideal_data t c
                          = sum_squared_deviation train_data ideal_data t n \<longrightarrow> c = n)
                      \<longrightarrow> n' = n))"
proof -
  have b: "map_of (ideal_functions_selection (fst (get_ideal_functions files self))) t
             = Some (best_ideal_func_name train_data ideal_data t)"
    using assms(8) by (simp add: get_ideal_functions_loaded(1)[OF assms(1,2)] select_loop_sel)
  have b': "map_of (ideal_functions_selection (fst (get_ideal_functions files' self'))) t
             = Some (best_ideal_func_name train_data shuffled t)"
    using assms(8) by (simp add: get_ideal_functions_loaded(1)[OF assms(3,4)] select_loop_sel)
  note sh = shuffled_best[OF assms(5-7), of train_data t]
  have "(best_ideal_func_name train_data shuffled t = None
           \<longleftrightarrow> best_ideal_func_name train_data ideal_data t = None)
        \<and> (\<forall>n n'. best_ideal_func_name train_data ideal_data t = Some n \<longrightarrow>
                 best_ideal_func_name train_data shuffled t = Some n' \<longrightarrow>
                 sum_squared_deviation train_data shuffled t n'
                   = sum_squared_deviation train_data ideal_data t n
                 \<and> ((\<forall>c\<in>set (columns ideal_data).
                        sum_squared_deviation train_data ideal_data t c
                          = sum_squared_deviation train_data ideal_data t n \<longrightarrow> c = n)
                      \<longrightarrow> n' = n))"
    using sh by blast
  then show ?thesis
    by (intro exI[of _ "best_ideal_func_name train_data ideal_data t"]
          exI[of _ "best_ideal_func_name train_data shuffled t"] conjI b b')
       (erule conjunct1, erule conjunct2)
qed

theorem shuffled_ideal_columns_keep_least_deviation_witness:
  "map_of (ideal_functions_selection (fst (get_ideal_functions ex_files (init_manager Map.empty))))
     ''train_y1'' = Some (Some ''ideal_y2'')
   \<and> map_of (ideal_functions_selection (fst (get_ideal_functions ex_files_shuffled (init_manager Map.empty))))
     ''train_y1'' = Some (Some ''ideal_y2'')"
proof -
  have d1: "distinct (columns ex_ideal)" by (simp add: ex_columns)
  have d2: "distinct (columns ex_ideal_shuffled)" by (simp add: ex_tie_columns)
  have s: "set (y_cols ex_ideal_shuffled) = set (y_cols ex_ideal)"
    by (auto simp: ex_ideal_shuffled_def ex_ideal_def)
  have t: "''train_y1'' \<in> set (columns ex_train)" by (simp add: ex_columns)
  from shuffled_ideal_columns_keep_least_deviation[OF ex_load(1) ex_load(2) ex_load_tie(5)
      ex_load_tie(6) d1 d2 s t, of "init_manager Map.empty" "init_manager Map.empty"]
  obtain b b' where h:
    "map_of (ideal_functions_selection (fst (get_ideal_functions ex_files (init_manager Map.empty))))
       ''train_y1'' = Some b"
    "map_of (ideal_functions_selection (fst (get_ideal_functions ex_files_shuffled (init_manager Map.empty))))
       ''train_y1'' = Some b'"
    "b' = None \<longleftrightarrow> b = None"
    "\<forall>n n'. b = Some n \<longrightarrow> b' = Some n' \<longrightarrow>
        sum_squared_deviation ex_train ex_ideal_shuffled ''train_y1'' n'
          = sum_squared_deviation ex_train ex_ideal ''train_y1'' n
        \<and> ((\<forall>c\<in>set (columns ex_ideal).
               sum_squared_deviation ex_train ex_ideal ''train_y1'' c
                 = sum_squared_deviation ex_train ex_ideal ''train_y1'' n \<longrightarrow> c = n)
             \<longrightarrow> n' = n)"
    by blast
  from h(1) have b: "b = Some ''ideal_y2''" by (simp add: ex_selection)
  with h(3) obtain n' where n': "b' = Some n'" by (cases b') auto
  have u: "\<forall>c\<in>set (columns ex_ideal).
             sum_squared_deviation ex_train ex_ideal ''train_y1'' c
               = sum_squared_deviation ex_train ex_ideal ''train_y1'' ''ideal_y2'' \<longrightarrow> c = ''ideal_y2''"
    by (simp add: ex_columns ex_ssd)
  from h(4) b n' u have "n' = ''ideal_y2''" by blast
  with h(1,2) b n' show ?thesis by simp
qed

text \<open>
  Claim C7 as stated fails: the two ideal columns differ but have the same fitted line, so
  both attain the least deviation of \<open>train_y1\<close>, and the two orders of the ideal
  columns give two selections.
\<close>

theorem shuffled_tie_changes_selection_counterexample:
  "y_cols ex_ideal_tie_shuffled = rev (y_cols ex_ideal_tie)
   \<and> ideal_functions_selection (fst (get_ideal_functions ex_files_tie (init_manager Map.empty)))
       = [(''train_y1'', Some ''ideal_y1'')]
   \<and> ideal_functions_selection (fst (get_ideal_functions ex_files_tie_shuffled (init_manager Map.empty)))
       = [(''train_y1'', Some ''ideal_y2'')]"
  by (simp add: get_ideal_functions_def ex_load_tie ex_tie_columns ex_tie_best init_manager_def
        Let_def)
     (simp add: ex_ideal_tie_def ex_ideal_tie_shuffled_def)

section \<open>The fitted line minimises the squared residuals\<close>

lemma sum_list_centred:
  assumes "vs \<noteq> []"
  shows "(\<Sum>v\<leftarrow>vs. v - mean vs) = 0"
proof -
  have "(\<Sum>v\<leftarrow>vs. v - mean vs) = sum_list vs - real (length vs) * mean vs"
    by (simp add: sum_list_subtractf sum_list_triv)
  also have "real (length vs) * mean vs = sum_list vs"
    using assms by (simp add: mean_def)
  finally show ?thesis by simp
qed

lemma sum_list_zip_fst:
  "length xs = length ys \<Longrightarrow> (\<Sum>p\<leftarrow>zip xs ys. f (fst p)) = (\<Sum>x\<leftarrow>xs. f x)"
  by (induction xs ys rule: list_induct2) simp_all

lemma sum_list_zip_snd:
  "length xs = length ys \<Longrightarrow> (\<Sum>p\<leftarrow>zip xs ys. f (snd p)) = (\<Sum>y\<leftarrow>ys. f y)"
  by (induction xs ys rule: list_induct2) simp_all

lemma sxx_zero_centred:
  assumes "sxx xs = 0" and "x \<in> set xs"
  shows "x - mean xs = 0"
proof -
  let ?sq = "map (\<lambda>x. (x - mean xs) * (x - mean xs)) xs"
  have nn: "\<And>v. v \<in> set ?sq \<Longrightarrow> 0 \<le> v" by auto
  have z: "sum_list ?sq = 0" using assms(1) by (simp add: sxx_def)
  have "(sum_list ?sq = 0) = (\<forall>v\<in>set ?sq. v = 0)"
    by (rule sum_list_nonneg_eq_0_iff) (rule nn)
  with z have "\<forall>v\<in>set ?sq. v = 0" by simp
  with assms(2) have "(x - mean xs) * (x - mean xs) = 0" by auto
  then show ?thesis by simp
qed

lemma normal_equations:
  fixes xs ys :: "real list"
  assumes len: "length xs = length ys" and ne: "xs \<noteq> []"
  defines "b \<equiv> (if sxx xs = 0 then 0 else sxy xs ys / sxx xs)"
  defines "r \<equiv> (\<lambda>p. (snd p - mean ys) - b * (fst p - mean xs))"
  shows "(\<Sum>p\<leftarrow>zip xs ys. r p) = 0"
    and "(\<Sum>p\<leftarrow>zip xs ys. r p * (fst p - mean xs)) = 0"
proof -
  let ?zs = "zip xs ys"
  have ney: "ys \<noteq> []" using len ne by auto
  have X: "(\<Sum>p\<leftarrow>?zs. fst p - mean xs) = 0"
    using sum_list_zip_fst[OF len, of "\<lambda>x. x - mean xs"] sum_list_centred[OF ne] by simp
  have Y: "(\<Sum>p\<leftarrow>?zs. snd p - mean ys) = 0"
    using sum_list_zip_snd[OF len, of "\<lambda>y. y - mean ys"] sum_list_centred[OF ney] by simp
  have "(\<Sum>p\<leftarrow>?zs. r p) = (\<Sum>p\<leftarrow>?zs. snd p - mean ys) - b * (\<Sum>p\<leftarrow>?zs. fst p - mean xs)"
    unfolding r_def by (simp add: sum_list_subtractf sum_list_const_mult)
  with X Y show "(\<Sum>p\<leftarrow>?zs. r p) = 0" by simp
  have XX: "(\<Sum>p\<leftarrow>?zs. (fst p - mean xs) * (fst p - mean xs)) = sxx xs"
    using sum_list_zip_fst[OF len, of "\<lambda>x. (x - mean xs) * (x - mean xs)"] by (simp add: sxx_def)
  have XY: "(\<Sum>p\<leftarrow>?zs. (snd p - mean ys) * (fst p - mean xs)) = sxy xs ys"
    by (simp add: sxy_def case_prod_unfold mult.commute)
  have "(\<Sum>p\<leftarrow>?zs. r p * (fst p - mean xs))
          = (\<Sum>p\<leftarrow>?zs. (snd p - mean ys) * (fst p - mean xs)
                       - b * ((fst p - mean xs) * (fst p - mean xs)))"
    unfolding r_def by (simp add: algebra_simps)
  also have "\<dots> = sxy xs ys - b * sxx xs"
    by (simp add: sum_list_subtractf sum_list_const_mult XX XY)
  finally have e: "(\<Sum>p\<leftarrow>?zs. r p * (fst p - mean xs)) = sxy xs ys - b * sxx xs" .
  show "(\<Sum>p\<leftarrow>?zs. r p * (fst p - mean xs)) = 0"
  proof (cases "sxx xs = 0")
    case False
    with e show ?thesis by (simp add: b_def)
  next
    case True
    have "\<forall>p\<in>set ?zs. fst p - mean xs = 0"
      using sxx_zero_centred[OF True] by (auto dest: set_zip_leftD)
    then have "(\<Sum>p\<leftarrow>?zs. r p * (fst p - mean xs)) = (\<Sum>p\<leftarrow>?zs. 0)"
      by (intro arg_cong[of _ _ sum_list] map_cong) auto
    then show ?thesis by simp
  qed
qed

lemma square_of_sum: "(u + v)\<^sup>2 = u\<^sup>2 + 2 * (u * v) + v\<^sup>2" for u v :: real
  by (simp add: power2_eq_square algebra_simps)

lemma least_squares_line:
  fixes xs ys :: "real list"
  assumes len: "length xs = length ys" and ne: "xs \<noteq> []"
  defines "b \<equiv> (if sxx xs = 0 then 0 else sxy xs ys / sxx xs)"
  shows "(\<Sum>p\<leftarrow>zip xs ys. (snd p - (b * fst p + (mean ys - b * mean xs)))\<^sup>2)
           \<le> (\<Sum>p\<leftarrow>zip xs ys. (snd p - (a' * fst p + b'))\<^sup>2)"
proof -
  let ?zs = "zip xs ys"
  define r where "r = (\<lambda>p::real \<times> real. (snd p - mean ys) - b * (fst p - mean xs))"
  define d where "d = b - a'"
  define k where "k = (b - a') * mean xs + (mean ys - b * mean xs) - b'"
  have r0: "(\<Sum>p\<leftarrow>?zs. r p) = 0" and rx: "(\<Sum>p\<leftarrow>?zs. r p * (fst p - mean xs)) = 0"
    using normal_equations[OF len ne] unfolding r_def b_def by simp_all
  have fitted: "snd p - (b * fst p + (mean ys - b * mean xs)) = r p" for p
    by (simp add: r_def algebra_simps)
  have other: "snd p - (a' * fst p + b') = r p + (d * (fst p - mean xs) + k)" for p
    by (simp add: r_def d_def k_def algebra_simps)
  have cross: "(\<Sum>p\<leftarrow>?zs. 2 * (r p * (d * (fst p - mean xs) + k))) = 0"
  proof -
    have "(\<Sum>p\<leftarrow>?zs. 2 * (r p * (d * (fst p - mean xs) + k)))
            = (\<Sum>p\<leftarrow>?zs. (2 * d) * (r p * (fst p - mean xs)) + (2 * k) * r p)"
      by (simp add: algebra_simps)
    also have "\<dots> = (2 * d) * (\<Sum>p\<leftarrow>?zs. r p * (fst p - mean xs)) + (2 * k) * (\<Sum>p\<leftarrow>?zs. r p)"
      by (simp only: sum_list_addf sum_list_const_mult)
    finally show ?thesis by (simp add: r0 rx)
  qed
  have "(\<Sum>p\<leftarrow>?zs. (r p)\<^sup>2) = (\<Sum>p\<leftarrow>?zs. (r p)\<^sup>2 + 2 * (r p * (d * (fst p - mean xs) + k)))"
    by (simp only: sum_list_addf cross)
  also have "\<dots> \<le> (\<Sum>p\<leftarrow>?zs. (r p + (d * (fst p - mean xs) + k))\<^sup>2)"
  proof (rule sum_list_mono)
    fix p
    have "(r p + (d * (fst p - mean xs) + k))\<^sup>2
            = (r p)\<^sup>2 + 2 * (r p * (d * (fst p - mean xs) + k)) + (d * (fst p - mean xs) + k)\<^sup>2"
      by (rule square_of_sum)
    then show "(r p)\<^sup>2 + 2 * (r p * (d * (fst p - mean xs) + k))
                 \<le> (r p + (d * (fst p - mean xs) + k))\<^sup>2"
      by simp
  qed
  finally show ?thesis by (simp only: fitted other)
qed

lemma fit_minimises_squared_residuals:
  assumes "fit fit_x fit_y = Inr m"
  shows "(\<Sum>p\<leftarrow>zip (map the_fin fit_x) (map the_fin fit_y).
            (snd p - (slope m * fst p + intercept m))\<^sup>2)
       \<le> (\<Sum>p\<leftarrow>zip (map the_fin fit_x) (map the_fin fit_y). (snd p - (a' * fst p + b'))\<^sup>2)"
proof -
  from assms have len: "length (map the_fin fit_x) = length (map the_fin fit_y)"
    and ne: "map the_fin fit_x \<noteq> []"
    and m: "m = \<lparr>slope = (if sxx (map the_fin fit_x) = 0 then 0
                          else sxy (map the_fin fit_x) (map the_fin fit_y) / sxx (map the_fin fit_x)),
                intercept = mean (map the_fin fit_y)
                  - (if sxx (map the_fin fit_x) = 0 then 0
                     else sxy (map the_fin fit_x) (map the_fin fit_y) / sxx (map the_fin fit_x))
                    * mean (map the_fin fit_x)\<rparr>"
    by (auto simp: fit_def Let_def split: if_splits)
  show ?thesis
    using least_squares_line[OF len ne, of a' b'] by (simp add: m)
qed

section \<open>A run in which the refit fails\<close>

lemma column_well_formed:
  assumes "well_formed t" and "name \<in> set (columns t)"
  shows "\<exists>ys. column t name = Inr ys \<and> length ys = length (x_col t)"
proof -
  from assms(2) obtain ys where ys: "map_of (y_cols t) name = Some ys"
    by (cases "map_of (y_cols t) name") (auto simp: columns_def map_of_eq_None_iff)
  then have "(name, ys) \<in> set (y_cols t)" by (rule map_of_SomeD)
  with assms(1) have "length ys = length (x_col t)" by (auto simp: well_formed_def)
  with ys show ?thesis by (simp add: column_def)
qed

lemma sum_squared_deviation_Inr:
  assumes "sum_squared_deviation train ideal t c = Inr d"
  shows "\<exists>ty iy m yp. column train t = Inr ty \<and> column ideal c = Inr iy
           \<and> fit (x_col train) iy = Inr m \<and> predict m (x_col train) = Inr yp
           \<and> length yp = length (x_col train) \<and> length ty = length yp \<and> x_col train \<noteq> []"
proof -
  from assms obtain ty iy where c: "column train t = Inr ty" "column ideal c = Inr iy"
    "calculate_squared_deviation ty iy (x_col train) = Inr d"
    by (auto simp: sum_squared_deviation_def split: sum.splits)
  from c(3) obtain m yp where f: "fit (x_col train) iy = Inr m" "predict m (x_col train) = Inr yp"
    "length ty = length yp"
    by (auto simp: calculate_squared_deviation_def series_sub_def split: sum.splits if_splits)
  from f(1) have ne: "x_col train \<noteq> []" by (auto simp: fit_def split: if_splits)
  from f(2) have "length yp = length (x_col train)" by (auto simp: predict_def split: if_splits)
  with c f ne show ?thesis by blast
qed

lemma py_max_nonempty: "vs \<noteq> [] \<Longrightarrow> \<exists>v. py_max vs = Inr v"
  by (cases vs) (simp_all add: py_max_def)

lemma refit_of_chosen_column:
  assumes "best_ideal_func_name train ideal t = Some n"
  shows "\<exists>v. max_deviation_train train ideal t (Some n) = Inr v"
proof -
  from best_ideal_func_name_Some[OF assms] obtain d
    where "sum_squared_deviation train ideal t n = Inr d" by blast
  from sum_squared_deviation_Inr[OF this] obtain ty iy m yp where
    h: "column train t = Inr ty" "column ideal n = Inr iy" "fit (x_col train) iy = Inr m"
       "predict m (x_col train) = Inr yp" "length yp = length (x_col train)"
       "length ty = length yp" "x_col train \<noteq> []"
    by blast
  from h(5-7) have "map fl_abs (map2 fl_sub ty yp) \<noteq> []" by (cases ty; cases yp) auto
  from py_max_nonempty[OF this] obtain v where "py_max (map fl_abs (map2 fl_sub ty yp)) = Inr v"
    by blast
  with h show ?thesis by (simp add: max_deviation_train_def series_sub_def)
qed

lemma failed_refit_nothing_chosen:
  assumes "max_deviation_train train ideal t (best_ideal_func_name train ideal t) = Inl e"
  shows "best_ideal_func_name train ideal t = None"
proof (cases "best_ideal_func_name train ideal t")
  case None
  then show ?thesis .
next
  case (Some n)
  with refit_of_chosen_column[OF Some] assms show ?thesis by simp
qed

lemma deviation_of_other_training_column:
  assumes "well_formed train" and "t \<in> set (columns train)"
    and "sum_squared_deviation train ideal u c = Inr d"
  shows "\<exists>d'. sum_squared_deviation train ideal t c = Inr d'"
proof -
  from sum_squared_deviation_Inr[OF assms(3)] obtain iy m yp where
    h: "column ideal c = Inr iy" "fit (x_col train) iy = Inr m"
       "predict m (x_col train) = Inr yp" "length yp = length (x_col train)"
    by blast
  from column_well_formed[OF assms(1,2)] obtain ty where
    ty: "column train t = Inr ty" "length ty = length (x_col train)" by blast
  from h ty show ?thesis
    by (simp add: sum_squared_deviation_def calculate_squared_deviation_def series_sub_def)
qed

lemma nothing_chosen_for_any_column:
  assumes "well_formed train" and "t \<in> set (columns train)"
    and "best_ideal_func_name train ideal t = None"
  shows "best_ideal_func_name train ideal u = None"
proof -
  from assms(3) have none: "\<forall>c\<in>set (columns ideal). \<forall>d. sum_squared_deviation train ideal t c \<noteq> Inr d"
    by (simp add: best_ideal_func_name_None_iff)
  have "\<forall>c\<in>set (columns ideal). \<forall>d. sum_squared_deviation train ideal u c \<noteq> Inr d"
  proof (intro ballI allI notI)
    fix c d
    assume "c \<in> set (columns ideal)" and "sum_squared_deviation train ideal u c = Inr d"
    with deviation_of_other_training_column[OF assms(1,2)] none show False by blast
  qed
  then show ?thesis by (simp add: best_ideal_func_name_None_iff)
qed

lemma update_all_none:
  "list_all (\<lambda>p. snd p = None) sel \<Longrightarrow> list_all (\<lambda>p. snd p = None) (AList.update k None sel)"
  by (induction sel) auto

lemma select_loop_all_none:
  assumes "\<forall>u\<in>set ts. best_ideal_func_name train ideal u = None"
    and "list_all (\<lambda>p. snd p = None) sel"
  shows "list_all (\<lambda>p. snd p = None) (fst (select_loop train ideal ts (sel, devs)))"
  using assms
proof (induction ts arbitrary: sel devs)
  case Nil
  then show ?case by simp
next
  case (Cons t ts)
  from Cons.prems(1) have b: "best_ideal_func_name train ideal t = None"
    and rest: "\<forall>u\<in>set ts. best_ideal_func_name train ideal u = None" by simp_all
  have "list_all (\<lambda>p. snd p = None) (AList.update t None sel)"
    by (rule update_all_none[OF Cons.prems(2)])
  from Cons.IH[OF rest this] b show ?case by (simp add: Let_def)
qed

lemma select_loop_nonempty:
  "ts \<noteq> [] \<Longrightarrow> fst (select_loop train ideal ts (sel, devs)) \<noteq> []"
proof (induction ts arbitrary: sel devs)
  case Nil
  then show ?case by simp
next
  case (Cons t ts)
  show ?case
  proof (cases ts)
    case Nil
    then show ?thesis by (simp add: Let_def)
  next
    case (Cons u us)
    then have "ts \<noteq> []" by simp
    from Cons.IH[OF this] show ?thesis by (simp add: Let_def)
  qed
qed

text \<open>
  Claim C4. When the refit of the chosen ideal column fails for a training column \<open>t\<close>
  of a training frame, NaN is stored as the deviation of \<open>t\<close> and the loop goes on; but
  then no ideal column was chosen for any training column, and the operation ends with a
  \<open>ValueError\<close>, raised where the frame of the chosen columns is built.
\<close>

theorem failed_refit_run_ends_with_exception:
  assumes "manager_load_data files TRAIN = Inr train_data"
    and "manager_load_data files IDEAL = Inr ideal_data"
    and "well_formed train_data"
    and "t \<in> set (columns train_data)"
    and "max_deviation_train train_data ideal_data t
           (best_ideal_func_name train_data ideal_data t) = Inl e"
  shows "map_of (training_data_max_deviations (fst (get_ideal_functions files self))) t = Some NaN
       \<and> set (map fst (ideal_functions_selection (fst (get_ideal_functions files self))))
           = set (columns train_data)
       \<and> snd (get_ideal_functions files self) = Some ValueError"
proof -
  let ?loop = "select_loop train_data ideal_data (columns train_data)
                 ([], training_data_max_deviations self)"
  have nan: "map_of (training_data_max_deviations (fst (get_ideal_functions files self))) t = Some NaN"
    using assms(4) deviation_bound_failed[OF assms(5)]
    by (simp add: get_ideal_functions_loaded(2)[OF assms(1,2)] select_loop_devs)
  have keys: "set (map fst (ideal_functions_selection (fst (get_ideal_functions files self))))
           = set (columns train_data)"
    using select_loop_keys[of train_data ideal_data "columns train_data" "[]"]
    by (simp add: get_ideal_functions_loaded(1)[OF assms(1,2)])
  have none: "best_ideal_func_name train_data ideal_data t = None"
    by (rule failed_refit_nothing_chosen[OF assms(5)])
  have "\<forall>u\<in>set (columns train_data). best_ideal_func_name train_data ideal_data u = None"
    using nothing_chosen_for_any_column[OF assms(3,4) none] by blast
  then have all: "list_all (\<lambda>p. snd p = None) (fst ?loop)"
    by (rule select_loop_all_none) simp
  from assms(4) have "columns train_data \<noteq> []" by auto
  then have ne: "fst ?loop \<noteq> []" by (rule select_loop_nonempty)
  have "snd (get_ideal_functions files self) = chosen_frame_error (fst ?loop)"
    using assms(1,2) by (simp add: get_ideal_functions_def split: prod.splits)
  with all ne have "snd (get_ideal_functions files self) = Some ValueError"
    by (simp add: chosen_frame_error_def)
  with nan keys show ?thesis by simp
qed

theorem failed_refit_run_ends_with_exception_witness:
  "map_of (training_data_max_deviations (fst (get_ideal_functions ex_files_nan (init_manager Map.empty))))
     ''train_y1'' = Some NaN
   \<and> set (map fst (ideal_functions_selection
         (fst (get_ideal_functions ex_files_nan (init_manager Map.empty)))))
       = {''train_y1'', ''train_y2''}
   \<and> snd (get_ideal_functions ex_files_nan (init_manager Map.empty)) = Some ValueError"
proof -
  have w: "well_formed ex_train" by (simp add: well_formed_def ex_train_def)
  have t: "''train_y1'' \<in> set (columns ex_train)" by (simp add: ex_columns)
  have f: "max_deviation_train ex_train ex_ideal_nan ''train_y1''
             (best_ideal_func_name ex_train ex_ideal_nan ''train_y1'') = Inl KeyError"
    by (simp add: ex_nan_best max_deviation_train_def)
  from failed_refit_run_ends_with_exception[OF ex_load_nan(1) ex_load_nan(2) w t f,
        of "init_manager Map.empty"]
  show ?thesis by (simp add: ex_columns insert_commute)
qed

end
